theory Spec2Isabelle
  imports Complex_Main "HOL-Library.Sublist"
begin

section \<open>JavaScript values\<close>

text \<open>
  Strings are lists of 8-bit code units (Latin-1). Numbers are IEEE 754 doubles: a finite
  double is the rational it denotes, each arithmetic operation rounds its exact result
  to the nearest double, ties to even (\<open>roundDouble\<close>), and NaN is \<open>None\<close> where it can
  arise. Wall-clock fields (\<open>timestamp\<close>, \<open>processingTime\<close>) are left out of every
  object. A thrown exception is the \<open>Inl\<close> branch of a sum.
\<close>

datatype error = TypeError | Error string

fun errorMessage :: "error \<Rightarrow> string" where
  \<comment> \<open>\<open>error.message\<close>; the engine's text of a TypeError is not modelled further\<close>
  "errorMessage TypeError = ''TypeError''"
| "errorMessage (Error m) = m"

definition bindE :: "error + 'a \<Rightarrow> ('a \<Rightarrow> error + 'b) \<Rightarrow> error + 'b" where
  "bindE x f = (case x of Inl err \<Rightarrow> Inl err | Inr v \<Rightarrow> f v)"

datatype json =
    JUndefined
  | JNull
  | JBool bool
  | JNum rat
  | JStr string
  | JArr "json list"
  | JObj "(string \<times> json) list"

fun truthy :: "json \<Rightarrow> bool" where
  "truthy JUndefined = False"
| "truthy JNull = False"
| "truthy (JBool b) = b"
| "truthy (JNum n) = (n \<noteq> 0)"
| "truthy (JStr s) = (s \<noteq> [])"
| "truthy (JArr xs) = True"
| "truthy (JObj kvs) = True"

fun getProp :: "json \<Rightarrow> string \<Rightarrow> error + json" where
  \<comment> \<open>the property read \<open>v.k\<close>: a TypeError on \<open>undefined\<close> and \<open>null\<close>. The keys read
      from a response (\<open>choices\<close>, \<open>message\<close>, \<open>content\<close>, ...) are fixed by the code, and
      none of them is a member of a prototype other than \<open>length\<close>\<close>
  "getProp JUndefined k = Inl TypeError"
| "getProp JNull k = Inl TypeError"
| "getProp (JObj kvs) k = Inr (case map_of kvs k of Some v \<Rightarrow> v | None \<Rightarrow> JUndefined)"
| "getProp (JArr xs) k = Inr (if k = ''length'' then JNum (of_nat (length xs)) else JUndefined)"
| "getProp (JStr s) k = Inr (if k = ''length'' then JNum (of_nat (length s)) else JUndefined)"
| "getProp (JBool b) k = Inr JUndefined"
| "getProp (JNum n) k = Inr JUndefined"

fun index0 :: "json \<Rightarrow> error + json" where
  \<comment> \<open>the element read \<open>v[0]\<close>\<close>
  "index0 JUndefined = Inl TypeError"
| "index0 JNull = Inl TypeError"
| "index0 (JArr xs) = Inr (case xs of [] \<Rightarrow> JUndefined | x # rest \<Rightarrow> x)"
| "index0 (JStr s) = Inr (case s of [] \<Rightarrow> JUndefined | c # rest \<Rightarrow> JStr [c])"
| "index0 (JObj kvs) = Inr (case map_of kvs ''0'' of Some v \<Rightarrow> v | None \<Rightarrow> JUndefined)"
| "index0 (JBool b) = Inr JUndefined"
| "index0 (JNum n) = Inr JUndefined"

definition digitChar :: "nat \<Rightarrow> char" where
  "digitChar d = char_of (48 + d)"

function showNat :: "nat \<Rightarrow> string" where
  "showNat n = (if n < 10 then [digitChar n] else showNat (n div 10) @ [digitChar (n mod 10)])"
  by pat_completeness auto
termination
  by (relation "measure (\<lambda>n. n)") auto

definition isSpaceJS :: "char \<Rightarrow> bool" where
  \<comment> \<open>the class \<open>\s\<close> of a JavaScript regular expression, within Latin-1: tab, line feed,
      vertical tab, form feed, carriage return, space, no-break space\<close>
  "isSpaceJS c =
     (let n = (of_char c :: nat) in (9 \<le> n \<and> n \<le> 13) \<or> n = 32 \<or> n = 160)"

function splitWs :: "string \<Rightarrow> string \<Rightarrow> string list" where
  \<comment> \<open>\<open>text.split(/\s+/)\<close>: the first argument is the piece being read, reversed\<close>
  "splitWs cur [] = [rev cur]"
| "splitWs cur (c # cs) =
     (if isSpaceJS c then rev cur # splitWs [] (dropWhile isSpaceJS cs)
      else splitWs (c # cur) cs)"
  by pat_completeness auto
termination
  by (relation "measure (\<lambda>(cur, cs). length cs)")
     (auto simp: le_imp_less_Suc length_dropWhile_le)

definition toLowerChar :: "char \<Rightarrow> char" where
  \<comment> \<open>\<open>toLowerCase\<close> on one Latin-1 code unit\<close>
  "toLowerChar c =
     (let n = (of_char c :: nat) in
      if (65 \<le> n \<and> n \<le> 90) \<or> (192 \<le> n \<and> n \<le> 222 \<and> n \<noteq> 215)
      then char_of (n + 32) else c)"

definition toLowerCase :: "string \<Rightarrow> string" where
  "toLowerCase s = map toLowerChar s"

fun includesJS :: "string \<Rightarrow> string \<Rightarrow> bool" where
  \<comment> \<open>\<open>s.includes(kw)\<close>\<close>
  "includesJS [] kw = (kw = [])"
| "includesJS (c # cs) kw = (prefix kw (c # cs) \<or> includesJS cs kw)"

subsection \<open>Reading a key of an object literal\<close>

text \<open>
  A key that an object literal does not define is looked up in \<open>Object.prototype\<close>: for
  the twelve names below the read \<open>table[key]\<close> yields an inherited function (for
  \<open>__proto__\<close> the prototype object itself), a truthy value that has none of the
  table's fields and no method \<open>map\<close> or \<open>generateResponse\<close>, and whose conversion to a
  number is NaN.
\<close>

definition objectPrototypeKeys :: "string list" where
  "objectPrototypeKeys =
     [''constructor'', ''__defineGetter__'', ''__defineSetter__'', ''hasOwnProperty'',
      ''__lookupGetter__'', ''__lookupSetter__'', ''isPrototypeOf'',
      ''propertyIsEnumerable'', ''toString'', ''valueOf'', ''__proto__'',
      ''toLocaleString'']"

datatype 'a member = Own 'a | Inherited | Absent

definition lookupMember :: "(string \<times> 'a) list \<Rightarrow> string \<Rightarrow> 'a member" where
  \<comment> \<open>\<open>table[key]\<close>; \<open>Absent\<close> is \<open>undefined\<close>\<close>
  "lookupMember table k =
     (case map_of table k of
        Some v \<Rightarrow> Own v
      | None \<Rightarrow> if k \<in> set objectPrototypeKeys then Inherited else Absent)"

definition keyOf :: "string option \<Rightarrow> string" where
  \<comment> \<open>a value that is a string or \<open>undefined\<close> (\<open>None\<close>), used as a property key or in a
      template literal; a \<open>switch\<close> over string cases treats \<open>undefined\<close> as it treats the
      string \<open>undefined\<close>: no case matches\<close>
  "keyOf v = (case v of None \<Rightarrow> ''undefined'' | Some k \<Rightarrow> k)"

subsection \<open>Double-precision arithmetic\<close>

text \<open>
  \<open>roundDouble\<close> rounds a rational to 53 significant bits, to nearest, ties to even. The
  exponent range is not bounded: overflow to Infinity and subnormal numbers are not
  modelled (the numbers of the token estimate are 0 or at least 0.9 and are sums of
  counts of string pieces).
\<close>

definition pow2 :: "int \<Rightarrow> rat" where
  "pow2 k = (if k \<ge> 0 then 2 ^ nat k else 1 / 2 ^ nat (- k))"

function bitLength :: "int \<Rightarrow> int" where
  \<comment> \<open>the number of binary digits of a positive integer\<close>
  "bitLength n = (if n \<le> 0 then 0 else 1 + bitLength (n div 2))"
  by pat_completeness auto
termination
  by (relation "measure (\<lambda>n. nat n)") auto

declare bitLength.simps [simp del]

definition exponentOf :: "rat \<Rightarrow> int" where
  \<comment> \<open>for \<open>x > 0\<close> the integer \<open>e\<close> with \<open>2 ^ e \<le> x < 2 ^ (e + 1)\<close>\<close>
  "exponentOf x =
     (case quotient_of x of (p, q) \<Rightarrow>
        let d = bitLength p - bitLength q
        in if pow2 d \<le> x then d else d - 1)"

definition roundHalfEven :: "rat \<Rightarrow> int" where
  "roundHalfEven y =
     (let f = \<lfloor>y\<rfloor>; r = y - of_int f
      in if r < 1 / 2 then f else if r > 1 / 2 then f + 1
         else if even f then f else f + 1)"

definition roundDouble :: "rat \<Rightarrow> rat" where
  "roundDouble x =
     (if x = 0 then 0
      else let a = \<bar>x\<bar>; e = exponentOf a
           in sgn x * of_int (roundHalfEven (a / pow2 (e - 52))) * pow2 (e - 52))"

definition mulDouble :: "rat \<Rightarrow> rat \<Rightarrow> rat" where
  \<comment> \<open>\<open>x * y\<close>\<close>
  "mulDouble x y = roundDouble (x * y)"

definition addDouble :: "rat \<Rightarrow> rat \<Rightarrow> rat" where
  \<comment> \<open>\<open>x + y\<close>\<close>
  "addDouble x y = roundDouble (x + y)"

definition numberOfNat :: "nat \<Rightarrow> rat option" where
  \<comment> \<open>the number that the numeral \<open>n\<close> denotes\<close>
  "numberOfNat n = Some (roundDouble (of_nat n))"

section \<open>Data model\<close>

record turn =
  t_userId :: string
  t_userInput :: string
  t_aiResponse :: string
  t_platform :: string
  t_taskType :: string
  t_isSystemMessage :: bool

text \<open>What \<open>saveContext\<close> hands to \<open>vectorDb.saveConversationTurn\<close>.\<close>

record savedTurn =
  sv_userId :: string
  sv_userInput :: string
  sv_aiResponse :: json
  sv_platform :: string
  sv_taskType :: string

record mlClassification =
  ml_taskType :: string
  ml_confidence :: rat

record message =
  m_role :: string
  m_content :: string

record geminiContent =
  g_role :: string
  g_parts :: "string list"

text \<open>
  A prompt object carries either \<open>messages\<close> (role/content pairs) or, for Gemini,
  \<open>contents\<close> (role/parts); the other fields of a prompt (\<open>search\<close>,
  \<open>include_citations\<close>, \<open>editor_context\<close>, \<open>use_realtime_data\<close>) are constants and left out.
\<close>

datatype prompt = Messages "message list" | Contents "geminiContent list"

record thinkingPrompts =
  tp_systemPrompt :: string
  tp_reasoningSteps :: "string list"
  tp_templates :: "(string \<times> string option) list"

record platformInfo =
  pi_platform :: "string option"
  pi_taskType :: string
  pi_secondary :: "string option"
  pi_fallback :: "string option"
  pi_isUserPreferred :: bool
  pi_isCostOptimized :: bool

record routingDecision =
  rd_userId :: string
  rd_userInput :: string
  rd_taskType :: string
  rd_platform :: "string option"
  rd_secondary :: "string option"
  rd_fallback :: "string option"
  rd_isErrorFallback :: bool

text \<open>
  The objects returned to callers (ProcessedResponse and the error responses): a field
  that the source leaves out is \<open>None\<close>.
\<close>

record response =
  r_content :: json
  r_formattedResponse :: json
  r_error :: "string option"
  r_originalError :: "string option"
  r_platform :: "string option"
  r_taskType :: "string option"
  r_userId :: "string option"
  r_routingInfo :: "routingDecision option"
  r_sources :: "(string option \<times> string option) list"

record options =
  o_preferredPlatform :: "string option"
  o_optimizeCost :: bool
  o_isPremiumUser :: bool
  o_enableFallback :: "bool option"
  o_isFallback :: bool
  o_isFallbackSecondary :: bool
  o_overridePlatform :: "string option"
  o_enableSemanticSearch :: bool
  o_mergeStrategy :: "string option"

text \<open>
  Everything the orchestration code calls but does not define: the built-ins of the
  JavaScript runtime, the configuration keys, the learned classifier, the vector
  database, the platform modules, and the methods of ThinkingEngine and ResponseSynthesizer
  that the sources do not contain. The database answers as a function of the turns saved
  so far; a platform module answers as a function of the number of provider calls made
  before and of the prompt.
\<close>

record env =
  stringify :: "json \<Rightarrow> json"
  toNumber :: "json \<Rightarrow> rat option"
  toStr :: "json \<Rightarrow> string"
  ML_CONFIDENCE_THRESHOLD :: "rat option"
  MAX_CONTEXT_LENGTH :: nat
  classifierInitialized :: bool
  classify :: "string \<Rightarrow> turn list \<Rightarrow> error + mlClassification"
  vectorDbInitialize :: "error option"
  getConversationHistory :: "savedTurn list \<Rightarrow> string \<Rightarrow> nat \<Rightarrow> error + turn list"
  searchSimilarConversations :: "savedTurn list \<Rightarrow> string \<Rightarrow> string \<Rightarrow> nat \<Rightarrow> error + turn list"
  saveConversationTurn :: "savedTurn list \<Rightarrow> savedTurn \<Rightarrow> error option"
  platformModulesLoad :: bool
  generateResponse :: "string \<Rightarrow> nat \<Rightarrow> prompt \<Rightarrow> error + json"
  generateThinkingInstructions :: "thinkingPrompts \<Rightarrow> string"
  enhanceVertixPrompt :: "prompt \<Rightarrow> thinkingPrompts \<Rightarrow> error + prompt"
  enhanceLocalPrompt :: "prompt \<Rightarrow> thinkingPrompts \<Rightarrow> error + prompt"
  renderResponse :: "json \<Rightarrow> string \<Rightarrow> error + json"
  mergeSequential :: "response list \<Rightarrow> error + json"
  mergeBestFirst :: "response list \<Rightarrow> error + json"
  mergeTaskSpecific :: "response list \<Rightarrow> error + json"

definition toNumberJS :: "env \<Rightarrow> json \<Rightarrow> rat option" where
  \<comment> \<open>ToNumber; \<open>None\<close> is NaN\<close>
  "toNumberJS e v =
     (case v of
        JNum n \<Rightarrow> Some n
      | JBool b \<Rightarrow> Some (if b then 1 else 0)
      | JNull \<Rightarrow> Some 0
      | JUndefined \<Rightarrow> None
      | _ \<Rightarrow> toNumber e v)"

definition greaterThanZero :: "env \<Rightarrow> json \<Rightarrow> bool" where
  \<comment> \<open>\<open>v > 0\<close>\<close>
  "greaterThanZero e v = (case toNumberJS e v of Some n \<Rightarrow> 0 < n | None \<Rightarrow> False)"

definition toStringJS :: "env \<Rightarrow> json \<Rightarrow> string" where
  \<comment> \<open>ToString, as string concatenation and template literals apply it\<close>
  "toStringJS e v =
     (case v of
        JStr s \<Rightarrow> s
      | JUndefined \<Rightarrow> ''undefined''
      | JNull \<Rightarrow> ''null''
      | JBool b \<Rightarrow> (if b then ''true'' else ''false'')
      | _ \<Rightarrow> toStr e v)"

definition stringifyFallback :: "env \<Rightarrow> json \<Rightarrow> json" where
  \<comment> \<open>\<open>typeof response === 'string' ? response : JSON.stringify(response)\<close>\<close>
  "stringifyFallback e response =
     (case response of JStr s \<Rightarrow> JStr s | _ \<Rightarrow> stringify e response)"

section \<open>ResponseSynthesizer: content extraction\<close>

definition nonEmptyArrayLike :: "env \<Rightarrow> json \<Rightarrow> error + bool" where
  \<comment> \<open>\<open>v && v.length > 0\<close>\<close>
  "nonEmptyArrayLike e v =
     (if truthy v then bindE (getProp v ''length'') (\<lambda>l. Inr (greaterThanZero e l))
      else Inr False)"

definition extractChatGPTContent :: "env \<Rightarrow> json \<Rightarrow> error + json" where
  "extractChatGPTContent e response =
     bindE (getProp response ''choices'') (\<lambda>choices.
     bindE (nonEmptyArrayLike e choices) (\<lambda>c.
       if c then
         bindE (index0 choices) (\<lambda>choice.
         bindE (getProp choice ''message'') (\<lambda>msg. getProp msg ''content''))
       else Inr (stringifyFallback e response)))"

fun appendCitations :: "env \<Rightarrow> string \<Rightarrow> nat \<Rightarrow> json list \<Rightarrow> error + string" where
  \<comment> \<open>the \<open>forEach\<close> over the citations, \<open>index\<close> counting from the given number\<close>
  "appendCitations e content index [] = Inr content"
| "appendCitations e content index (citation # rest) =
     bindE (getProp citation ''title'') (\<lambda>title.
     bindE (getProp citation ''url'') (\<lambda>url.
       appendCitations e
         (content @ showNat (index + 1) @ ''. ['' @ toStringJS e title @ '']('' @
            toStringJS e url @ '')'' @ [CHR 0x0A])
         (index + 1) rest))"

definition extractPerplexityContent :: "env \<Rightarrow> json \<Rightarrow> error + json" where
  "extractPerplexityContent e response =
     bindE (getProp response ''answer'') (\<lambda>answer.
       if truthy answer then
         bindE (getProp answer ''text'') (\<lambda>content.
         bindE (getProp answer ''citations'') (\<lambda>citations.
         bindE (nonEmptyArrayLike e citations) (\<lambda>c.
           if c then
             (case citations of
                JArr cs \<Rightarrow>
                  bindE (appendCitations e
                           (toStringJS e content @ [CHR 0x0A, CHR 0x0A] @ ''**Sources:**'' @ [CHR 0x0A])
                           0 cs)
                        (\<lambda>s. Inr (JStr s))
              | _ \<Rightarrow> Inl TypeError)
           else Inr content)))
       else Inr (stringifyFallback e response))"

definition extractGeminiContent :: "env \<Rightarrow> json \<Rightarrow> error + json" where
  "extractGeminiContent e response =
     bindE (getProp response ''candidates'') (\<lambda>candidates.
     bindE (nonEmptyArrayLike e candidates) (\<lambda>c.
       if c then
         bindE (index0 candidates) (\<lambda>candidate.
         bindE (getProp candidate ''content'') (\<lambda>cont.
         bindE (getProp cont ''parts'') (\<lambda>ps.
         bindE (index0 ps) (\<lambda>part. getProp part ''text''))))
       else Inr (stringifyFallback e response)))"

definition extractCopilotContent :: "env \<Rightarrow> json \<Rightarrow> error + json" where
  "extractCopilotContent e response =
     bindE (getProp response ''choices'') (\<lambda>choices.
     bindE (nonEmptyArrayLike e choices) (\<lambda>c.
       if c then
         bindE (index0 choices) (\<lambda>choice.
         bindE (getProp choice ''message'') (\<lambda>msg. getProp msg ''content''))
       else Inr (stringifyFallback e response)))"

definition extractDeepSeekContent :: "env \<Rightarrow> json \<Rightarrow> error + json" where
  "extractDeepSeekContent e response =
     bindE (getProp response ''choices'') (\<lambda>choices.
     bindE (nonEmptyArrayLike e choices) (\<lambda>c.
       if c then
         bindE (index0 choices) (\<lambda>choice.
         bindE (getProp choice ''message'') (\<lambda>msg. getProp msg ''content''))
       else Inr (stringifyFallback e response)))"

definition extractGrok3Content :: "env \<Rightarrow> json \<Rightarrow> error + json" where
  "extractGrok3Content e response =
     bindE (getProp response ''output'') (\<lambda>output.
     bindE (if truthy output then bindE (getProp output ''content'') (\<lambda>c. Inr (truthy c))
            else Inr False) (\<lambda>c.
       if c then getProp output ''content''
       else Inr (stringifyFallback e response)))"

definition extractVertixContent :: "env \<Rightarrow> json \<Rightarrow> error + json" where
  "extractVertixContent e response =
     bindE (getProp response ''content'') (\<lambda>c.
       if truthy c then Inr c else Inr (stringifyFallback e response))"

definition extractLocalContent :: "env \<Rightarrow> json \<Rightarrow> error + json" where
  "extractLocalContent e response =
     bindE (getProp response ''output'') (\<lambda>output.
       if truthy output then Inr output else Inr (stringifyFallback e response))"

definition extractContent :: "env \<Rightarrow> json \<Rightarrow> string \<Rightarrow> error + json" where
  "extractContent e response platform =
     (if platform = ''chatgpt'' then extractChatGPTContent e response
      else if platform = ''perplexity'' then extractPerplexityContent e response
      else if platform = ''gemini'' then extractGeminiContent e response
      else if platform = ''copilot'' then extractCopilotContent e response
      else if platform = ''deepseek'' then extractDeepSeekContent e response
      else if platform = ''grok3'' then extractGrok3Content e response
      else if platform = ''vertix'' then extractVertixContent e response
      else if platform = ''local'' then extractLocalContent e response
      else Inr (stringifyFallback e response))"

section \<open>ContextManager\<close>

definition contextWindowSizes :: "(string \<times> nat) list" where
  "contextWindowSizes =
     [(''chatgpt'', 128000), (''perplexity'', 32000), (''gemini'', 1000000),
      (''copilot'', 64000), (''deepseek'', 128000), (''grok3'', 128000),
      (''vertix'', 32000), (''local'', 32000)]"

definition maxContextLength :: "env \<Rightarrow> nat" where
  \<comment> \<open>\<open>config.MAX_CONTEXT_LENGTH || 10\<close>\<close>
  "maxContextLength e = (if MAX_CONTEXT_LENGTH e = 0 then 10 else MAX_CONTEXT_LENGTH e)"

definition double_1_3 :: rat where
  \<comment> \<open>the literal \<open>1.3\<close>\<close>
  "double_1_3 = roundDouble (13 / 10)"

definition double_0_9 :: rat where
  \<comment> \<open>the literal \<open>0.9\<close>\<close>
  "double_0_9 = roundDouble (9 / 10)"

definition estimateTokens :: "string \<Rightarrow> rat" where
  \<comment> \<open>\<open>text ? text.split(/\s+/).length * 1.3 : 0\<close>; the empty string is falsy\<close>
  "estimateTokens text =
     (if text = [] then 0 else mulDouble (of_nat (length (splitWs [] text))) double_1_3)"

definition turnTokens :: "turn \<Rightarrow> rat" where
  "turnTokens t = addDouble (estimateTokens (t_userInput t)) (estimateTokens (t_aiResponse t))"

definition windowLimit :: "rat option \<Rightarrow> rat option" where
  \<comment> \<open>\<open>contextWindowSize * 0.9\<close>; NaN if the window is not a number\<close>
  "windowLimit contextWindowSize =
     (case contextWindowSize of None \<Rightarrow> None | Some w \<Rightarrow> Some (mulDouble w double_0_9))"

definition exceedsLimit :: "rat \<Rightarrow> rat option \<Rightarrow> bool" where
  \<comment> \<open>\<open>x > limit\<close>: false against NaN\<close>
  "exceedsLimit x limit = (case limit of None \<Rightarrow> False | Some l \<Rightarrow> x > l)"

text \<open>
  The loop \<open>for (let i = context.length - 1; i >= 0; i--)\<close> of \<open>optimizeContext\<close>:
  the counter of \<open>optimizeLoop\<close> is \<open>i + 1\<close>, \<open>unshift\<close> is \<open>#\<close>, and \<open>break\<close> returns
  the turns kept so far. The window is a number (\<open>None\<close> if NaN), the limit is the
  product \<open>contextWindowSize * 0.9\<close>.
\<close>

fun optimizeLoop :: "turn list \<Rightarrow> rat option \<Rightarrow> nat \<Rightarrow> rat \<Rightarrow> turn list \<Rightarrow> turn list" where
  "optimizeLoop context limit 0 totalTokens optimizedContext = optimizedContext"
| "optimizeLoop context limit (Suc i) totalTokens optimizedContext =
     (let t = context ! i in
      if exceedsLimit (addDouble totalTokens (turnTokens t)) limit then optimizedContext
      else optimizeLoop context limit i (addDouble totalTokens (turnTokens t))
             (t # optimizedContext))"

definition optimizeContext :: "turn list \<Rightarrow> rat option \<Rightarrow> turn list" where
  "optimizeContext context contextWindowSize =
     optimizeLoop context (windowLimit contextWindowSize) (length context) 0 []"

definition cumulativeTokens :: "turn list \<Rightarrow> rat" where
  \<comment> \<open>the estimate of a list of turns as the loop adds it up: from the most recent turn
      back to the oldest\<close>
  "cumulativeTokens ts = foldr (\<lambda>t totalTokens. addDouble totalTokens (turnTokens t)) ts 0"

definition separatorTurn :: turn where
  \<comment> \<open>the separator object has only \<open>userInput\<close>, \<open>aiResponse\<close> and \<open>isSystemMessage\<close>\<close>
  "separatorTurn =
     \<lparr>t_userId = [], t_userInput = [],
      t_aiResponse = ''--- Relevant past conversations ---'',
      t_platform = [], t_taskType = [], t_isSystemMessage = True\<rparr>"

definition mergeAndOptimizeContext :: "turn list \<Rightarrow> turn list \<Rightarrow> rat option \<Rightarrow> turn list" where
  "mergeAndOptimizeContext recentContext relevantHistory contextWindowSize =
     optimizeContext
       (recentContext @ (if length relevantHistory > 0 then [separatorTurn] else [])
          @ relevantHistory)
       contextWindowSize"

text \<open>
  \<open>getContext(userId, options)\<close> with \<open>options.platform\<close>, \<open>options.userInput\<close> and
  \<open>options.enableSemanticSearch\<close> as arguments (\<open>None\<close> where the caller leaves the key
  out); \<open>options.maxRelevantItems\<close> is never passed, so the count is 3. For a platform
  name inherited from \<open>Object.prototype\<close> the window \<open>contextWindowSizes[platform] || 32000\<close>
  is a function and the limit is NaN.
\<close>

definition getContextTry ::
  "env \<Rightarrow> savedTurn list \<Rightarrow> string \<Rightarrow> string option \<Rightarrow> string option \<Rightarrow> bool
     \<Rightarrow> error + turn list" where
  "getContextTry e db userId optPlatform optUserInput semanticSearch =
     (let platform = (case optPlatform of None \<Rightarrow> ''chatgpt''
               | Some op \<Rightarrow> if op = [] then ''chatgpt'' else op);
          contextWindowSize = (case lookupMember contextWindowSizes platform of
                                 Own w \<Rightarrow> numberOfNat w
                               | Inherited \<Rightarrow> None
                               | Absent \<Rightarrow> numberOfNat 32000)
      in bindE (getConversationHistory e db userId (maxContextLength e)) (\<lambda>conversationHistory.
         let optimizedContext = optimizeContext conversationHistory contextWindowSize in
         if semanticSearch \<and> optUserInput \<noteq> None \<and> optUserInput \<noteq> Some [] then
           bindE (searchSimilarConversations e db userId (the optUserInput) 3) (\<lambda>relevantHistory.
             Inr (mergeAndOptimizeContext optimizedContext relevantHistory contextWindowSize))
         else Inr optimizedContext))"

definition getContext ::
  "env \<Rightarrow> savedTurn list \<Rightarrow> string \<Rightarrow> string option \<Rightarrow> string option \<Rightarrow> bool \<Rightarrow> turn list" where
  \<comment> \<open>the \<open>catch\<close> returns the empty context\<close>
  "getContext e db userId optPlatform optUserInput semanticSearch =
     (case getContextTry e db userId optPlatform optUserInput semanticSearch of
        Inl err \<Rightarrow> [] | Inr context \<Rightarrow> context)"

definition saveContext ::
  "env \<Rightarrow> savedTurn list \<Rightarrow> string \<Rightarrow> string \<Rightarrow> json \<Rightarrow> string option \<Rightarrow> string
     \<Rightarrow> savedTurn list" where
  \<comment> \<open>\<open>metadata.platform || 'unknown'\<close>, \<open>metadata.taskType || 'general'\<close>; a failed save
      is caught and the turn dropped\<close>
  "saveContext e db userId userInput aiResponse metaPlatform metaTaskType =
     (let conversationTurn =
            \<lparr>sv_userId = userId, sv_userInput = userInput, sv_aiResponse = aiResponse,
             sv_platform = (case metaPlatform of None \<Rightarrow> ''unknown''
                            | Some mp \<Rightarrow> if mp = [] then ''unknown'' else mp),
             sv_taskType = (if metaTaskType = [] then ''general'' else metaTaskType)\<rparr>
      in case saveConversationTurn e db conversationTurn of
           None \<Rightarrow> db @ [conversationTurn]
         | Some err \<Rightarrow> db)"

fun turnMessages :: "string \<Rightarrow> turn \<Rightarrow> message list" where
  \<comment> \<open>the body of the \<open>forEach\<close> shared by the message formats; the first argument is
      the role of the reply\<close>
  "turnMessages replyRole t =
     (if t_isSystemMessage t then [\<lparr>m_role = ''system'', m_content = t_aiResponse t\<rparr>]
      else \<lparr>m_role = ''user'', m_content = t_userInput t\<rparr> #
           (if t_aiResponse t \<noteq> [] then [\<lparr>m_role = replyRole, m_content = t_aiResponse t\<rparr>]
            else []))"

definition formatMessages :: "string \<Rightarrow> turn list \<Rightarrow> prompt" where
  "formatMessages system context =
     Messages (\<lparr>m_role = ''system'', m_content = system\<rparr> #
               concat (map (turnMessages ''assistant'') context))"

definition formatForChatGPT :: "turn list \<Rightarrow> prompt" where
  "formatForChatGPT context = formatMessages
     (''You are Majd, an advanced AI assistant that combines the capabilities of multiple AI systems. '' @
      ''You provide detailed reasoning and show your thinking process step by step when solving complex problems.'')
     context"

definition formatForPerplexity :: "turn list \<Rightarrow> prompt" where
  "formatForPerplexity context = formatMessages
     (''You are Majd, an advanced AI research assistant. '' @
      ''Provide comprehensive answers with citations and sources when available.'')
     context"

definition formatForGemini :: "turn list \<Rightarrow> prompt" where
  "formatForGemini context =
     Contents
       (\<lparr>g_role = ''system'', g_parts =
           [''You are Majd, an advanced AI assistant with exceptional reasoning capabilities. '' @
            ''Show your thinking process step by step.'']\<rparr> #
        concat (map (\<lambda>t.
          if t_isSystemMessage t then [\<lparr>g_role = ''system'', g_parts = [t_aiResponse t]\<rparr>]
          else \<lparr>g_role = ''user'', g_parts = [t_userInput t]\<rparr> #
               (if t_aiResponse t \<noteq> [] then [\<lparr>g_role = ''model'', g_parts = [t_aiResponse t]\<rparr>]
                else [])) context))"

definition formatForCopilot :: "turn list \<Rightarrow> prompt" where
  "formatForCopilot context = formatMessages
     (''You are Majd, an advanced AI coding assistant. '' @
      ''Provide detailed code explanations and step-by-step solutions to programming problems.'')
     context"

definition formatForDeepSeek :: "turn list \<Rightarrow> prompt" where
  "formatForDeepSeek context = formatMessages
     (''You are Majd, an advanced AI assistant with exceptional mathematical and reasoning capabilities. '' @
      ''Show your step-by-step thinking process when solving problems.'')
     context"

definition formatForGrok3 :: "turn list \<Rightarrow> prompt" where
  "formatForGrok3 context = formatMessages
     (''You are Majd, an advanced AI assistant with real-time data analysis capabilities. '' @
      ''Provide insightful analysis and up-to-date information.'')
     context"

definition formatForVertix :: "turn list \<Rightarrow> prompt" where
  "formatForVertix context = formatMessages
     (''You are Majd, an advanced AI assistant with specialized domain expertise. '' @
      ''Provide industry-specific insights and domain knowledge.'')
     context"

definition formatForLocal :: "turn list \<Rightarrow> prompt" where
  "formatForLocal context = formatMessages
     ''You are Majd, an advanced AI assistant. Provide helpful and accurate responses.''
     context"

definition formatContextForPlatform :: "turn list \<Rightarrow> string \<Rightarrow> prompt" where
  "formatContextForPlatform context platform =
     (if platform = ''chatgpt'' then formatForChatGPT context
      else if platform = ''perplexity'' then formatForPerplexity context
      else if platform = ''gemini'' then formatForGemini context
      else if platform = ''copilot'' then formatForCopilot context
      else if platform = ''deepseek'' then formatForDeepSeek context
      else if platform = ''grok3'' then formatForGrok3 context
      else if platform = ''vertix'' then formatForVertix context
      else if platform = ''local'' then formatForLocal context
      else formatForChatGPT context)"

section \<open>TaskRouter\<close>

definition platformMapping :: "(string \<times> string \<times> string \<times> string) list" where
  \<comment> \<open>task type, then \<open>primary\<close>, \<open>secondary\<close>, \<open>fallback\<close>\<close>
  "platformMapping =
     [(''research'', ''perplexity'', ''gemini'', ''local''),
      (''reasoning'', ''deepseek'', ''gemini'', ''local''),
      (''code'', ''copilot'', ''deepseek'', ''local''),
      (''creative'', ''chatgpt'', ''gemini'', ''local''),
      (''data_analysis'', ''grok3'', ''gemini'', ''local''),
      (''domain_expertise'', ''vertix'', ''chatgpt'', ''local''),
      (''general'', ''chatgpt'', ''deepseek'', ''local'')]"

definition isLowerAZ :: "char \<Rightarrow> bool" where
  "isLowerAZ c = (97 \<le> (of_char c :: nat) \<and> (of_char c :: nat) \<le> 122)"

definition codeBlockAt :: "string \<Rightarrow> bool" where
  \<comment> \<open>\<open>/```[a-z]*
/\<close> matching at the start of the string\<close>
  "codeBlockAt s =
     (prefix ''```'' s \<and>
      (case dropWhile isLowerAZ (drop 3 s) of [] \<Rightarrow> False | c # rest \<Rightarrow> c = CHR 0x0A))"

fun matchCodeBlock :: "string \<Rightarrow> bool" where
  \<comment> \<open>\<open>input.match(/```[a-z]*
/g)\<close> is not null\<close>
  "matchCodeBlock [] = False"
| "matchCodeBlock (c # cs) = (codeBlockAt (c # cs) \<or> matchCodeBlock cs)"

definition ruleBasedClassification :: "string \<Rightarrow> turn list \<Rightarrow> string" where
  "ruleBasedClassification userInput context =
     (let input = toLowerCase userInput in
      if includesJS input ''code'' \<or> includesJS input ''function''
         \<or> includesJS input ''programming'' \<or> includesJS input ''debug''
         \<or> includesJS input ''algorithm'' \<or> matchCodeBlock input
      then ''code''
      else if includesJS input ''research'' \<or> includesJS input ''find information''
         \<or> includesJS input ''search for'' \<or> includesJS input ''look up''
         \<or> includesJS input ''what is'' \<or> includesJS input ''tell me about''
      then ''research''
      else if includesJS input ''solve'' \<or> includesJS input ''calculate''
         \<or> includesJS input ''math'' \<or> includesJS input ''logic''
         \<or> includesJS input ''prove'' \<or> includesJS input ''explain why''
      then ''reasoning''
      else if includesJS input ''write a'' \<or> includesJS input ''create a''
         \<or> includesJS input ''generate a'' \<or> includesJS input ''design''
         \<or> includesJS input ''story'' \<or> includesJS input ''poem''
      then ''creative''
      else if includesJS input ''analyze'' \<or> includesJS input ''data''
         \<or> includesJS input ''trends'' \<or> includesJS input ''statistics''
         \<or> includesJS input ''graph'' \<or> includesJS input ''chart''
      then ''data_analysis''
      else if includesJS input ''industry'' \<or> includesJS input ''sector''
         \<or> includesJS input ''specialized'' \<or> includesJS input ''expert''
         \<or> includesJS input ''professional''
      then ''domain_expertise''
      else ''general'')"

definition exceedsThreshold :: "rat \<Rightarrow> rat option \<Rightarrow> bool" where
  \<comment> \<open>\<open>confidence > config.ML_CONFIDENCE_THRESHOLD\<close>: false against \<open>undefined\<close>\<close>
  "exceedsThreshold c threshold = (case threshold of None \<Rightarrow> False | Some t \<Rightarrow> c > t)"

definition classifyTaskTry :: "env \<Rightarrow> savedTurn list \<Rightarrow> string \<Rightarrow> string \<Rightarrow> error + string" where
  \<comment> \<open>the \<open>try\<close> block of \<open>classifyTask\<close>\<close>
  "classifyTaskTry e db userInput userId =
     (let context = getContext e db userId None None False in
      if classifierInitialized e then
        bindE (classify e userInput context) (\<lambda>mlClassification.
          if exceedsThreshold (ml_confidence mlClassification) (ML_CONFIDENCE_THRESHOLD e)
          then Inr (ml_taskType mlClassification)
          else Inr (ruleBasedClassification userInput context))
      else Inr (ruleBasedClassification userInput context))"

definition classifyTask :: "env \<Rightarrow> savedTurn list \<Rightarrow> string \<Rightarrow> string \<Rightarrow> string" where
  \<comment> \<open>the \<open>catch\<close> returns \<open>taskTypes.GENERAL\<close>\<close>
  "classifyTask e db userInput userId =
     (case classifyTaskTry e db userInput userId of Inl err \<Rightarrow> ''general'' | Inr t \<Rightarrow> t)"

definition getPlatformForTask :: "string \<Rightarrow> options \<Rightarrow> platformInfo" where
  "getPlatformForTask taskType opts =
     (let platformMap =
            (case lookupMember platformMapping taskType of
               Own (primary, second, fallb) \<Rightarrow> (Some primary, Some second, Some fallb)
             | Inherited \<Rightarrow> (None, None, None)
             | Absent \<Rightarrow> (Some ''chatgpt'', Some ''deepseek'', Some ''local''))
      in case platformMap of (primary, second, fallb) \<Rightarrow>
        if o_preferredPlatform opts \<noteq> None \<and> o_preferredPlatform opts \<noteq> Some [] then
          \<lparr>pi_platform = o_preferredPlatform opts, pi_taskType = taskType,
           pi_secondary = None, pi_fallback = None,
           pi_isUserPreferred = True, pi_isCostOptimized = False\<rparr>
        else if o_optimizeCost opts \<and> \<not> o_isPremiumUser opts then
          \<lparr>pi_platform = fallb, pi_taskType = taskType,
           pi_secondary = None, pi_fallback = None,
           pi_isUserPreferred = False, pi_isCostOptimized = True\<rparr>
        else
          \<lparr>pi_platform = primary, pi_taskType = taskType,
           pi_secondary = second, pi_fallback = fallb,
           pi_isUserPreferred = False, pi_isCostOptimized = False\<rparr>)"

definition routeRequest :: "env \<Rightarrow> savedTurn list \<Rightarrow> string \<Rightarrow> string \<Rightarrow> options \<Rightarrow> routingDecision" where
  \<comment> \<open>neither \<open>classifyTask\<close> nor \<open>getPlatformForTask\<close> throws, so the \<open>catch\<close> with the
      default routing is never entered\<close>
  "routeRequest e db userInput userId opts =
     (let taskType = classifyTask e db userInput userId;
          platformInfo = getPlatformForTask taskType opts
      in \<lparr>rd_userId = userId, rd_userInput = userInput, rd_taskType = taskType,
          rd_platform = pi_platform platformInfo,
          rd_secondary = pi_secondary platformInfo,
          rd_fallback = pi_fallback platformInfo,
          rd_isErrorFallback = False\<rparr>)"

section \<open>ThinkingEngine\<close>

definition reasoningStepNames :: "(string \<times> string) list" where
  \<comment> \<open>\<open>this.reasoningSteps\<close>\<close>
  "reasoningStepNames =
     [(''PROBLEM_UNDERSTANDING'', ''problem_understanding''),
      (''INFORMATION_GATHERING'', ''information_gathering''),
      (''APPROACH_SELECTION'', ''approach_selection''),
      (''STEP_BY_STEP_REASONING'', ''step_by_step_reasoning''),
      (''VERIFICATION'', ''verification''),
      (''CONCLUSION'', ''conclusion'')]"

definition reasoningTemplates :: "(string \<times> string) list" where
  \<comment> \<open>keyed by the values of \<open>this.reasoningSteps\<close>, as the computed keys make it\<close>
  "reasoningTemplates =
     [(''problem_understanding'', ''Let me understand the problem: {problem}''),
      (''information_gathering'', ''Relevant information I need to consider: {information}''),
      (''approach_selection'', ''I'' @ [CHR 0x27] @ ''ll approach this by: {approach}''),
      (''step_by_step_reasoning'', ''Step {step_number}: {step_content}''),
      (''verification'', ''Let me verify my solution: {verification}''),
      (''conclusion'', ''Therefore, the answer is: {conclusion}'')]"

definition taskTypeReasoningMap :: "(string \<times> string list) list" where
  "taskTypeReasoningMap =
     [(''research'', [''PROBLEM_UNDERSTANDING'', ''INFORMATION_GATHERING'', ''APPROACH_SELECTION'',
                      ''STEP_BY_STEP_REASONING'', ''CONCLUSION'']),
      (''reasoning'', [''PROBLEM_UNDERSTANDING'', ''APPROACH_SELECTION'', ''STEP_BY_STEP_REASONING'',
                       ''VERIFICATION'', ''CONCLUSION'']),
      (''code'', [''PROBLEM_UNDERSTANDING'', ''APPROACH_SELECTION'', ''STEP_BY_STEP_REASONING'',
                  ''VERIFICATION'', ''CONCLUSION'']),
      (''creative'', [''PROBLEM_UNDERSTANDING'', ''APPROACH_SELECTION'', ''STEP_BY_STEP_REASONING'',
                      ''CONCLUSION'']),
      (''data_analysis'', [''PROBLEM_UNDERSTANDING'', ''INFORMATION_GATHERING'', ''APPROACH_SELECTION'',
                           ''STEP_BY_STEP_REASONING'', ''VERIFICATION'', ''CONCLUSION'']),
      (''domain_expertise'', [''PROBLEM_UNDERSTANDING'', ''INFORMATION_GATHERING'',
                              ''APPROACH_SELECTION'', ''STEP_BY_STEP_REASONING'', ''CONCLUSION'']),
      (''general'', [''PROBLEM_UNDERSTANDING'', ''APPROACH_SELECTION'', ''STEP_BY_STEP_REASONING'',
                     ''CONCLUSION''])]"

definition generateSystemPrompt :: "string \<Rightarrow> string" where
  "generateSystemPrompt taskType =
     (let basePrompt = ''You are Majd, an advanced AI assistant that shows explicit reasoning and thinking processes. '';
          taskSpecificPrompt =
            (if taskType = ''research'' then
               ''For this research task, show your information gathering process, evaluate sources, and synthesize findings. Cite sources when available.''
             else if taskType = ''reasoning'' then
               ''For this reasoning task, break down the problem, show each logical step, verify your work, and explain your conclusion.''
             else if taskType = ''code'' then
               ''For this coding task, analyze the requirements, plan your approach, implement the solution step by step, and test your code.''
             else if taskType = ''creative'' then
               ''For this creative task, explain your inspiration, outline your approach, and show how you developed the creative elements.''
             else if taskType = ''data_analysis'' then
               ''For this data analysis task, describe your methodology, show your analysis process, verify your findings, and present conclusions.''
             else if taskType = ''domain_expertise'' then
               ''For this domain-specific task, apply specialized knowledge, explain industry-specific concepts, and provide expert insights.''
             else
               ''Break down your thinking process into clear steps, showing how you arrive at your answer.'');
          thinkingStylePrompt =
            ''Always make your reasoning explicit using a step-by-step approach. '' @
            ''First understand the problem, then gather relevant information, select an approach, '' @
            ''work through the solution methodically, verify your answer when appropriate, and provide a clear conclusion.''
      in basePrompt @ taskSpecificPrompt @ '' '' @ thinkingStylePrompt)"

definition thinkingPromptsFor :: "string \<Rightarrow> string list \<Rightarrow> thinkingPrompts" where
  \<comment> \<open>the object that \<open>generateThinkingPrompts\<close> builds from an array of step keys\<close>
  "thinkingPromptsFor taskType reasoningStepKeys =
     \<lparr>tp_systemPrompt = generateSystemPrompt taskType,
      tp_reasoningSteps = map (\<lambda>step. the (map_of reasoningStepNames step)) reasoningStepKeys,
      tp_templates = map (\<lambda>step. (the (map_of reasoningStepNames step),
                                     map_of reasoningTemplates step)) reasoningStepKeys\<rparr>"

definition generateThinkingPrompts :: "string \<Rightarrow> error + thinkingPrompts" where
  \<comment> \<open>for a task type inherited from \<open>Object.prototype\<close> the step keys are a function (or
      the prototype), and \<open>reasoningStepKeys.map\<close> is not a function: a TypeError\<close>
  "generateThinkingPrompts taskType =
     (case lookupMember taskTypeReasoningMap taskType of
        Own reasoningStepKeys \<Rightarrow> Inr (thinkingPromptsFor taskType reasoningStepKeys)
      | Inherited \<Rightarrow> Inl TypeError
      | Absent \<Rightarrow> Inr (thinkingPromptsFor taskType
                          (the (map_of taskTypeReasoningMap ''general''))))"

fun findIndexFrom :: "('a \<Rightarrow> bool) \<Rightarrow> 'a list \<Rightarrow> int \<Rightarrow> int" where
  "findIndexFrom P [] i = - 1"
| "findIndexFrom P (x # xs) i = (if P x then i else findIndexFrom P xs (i + 1))"

definition findIndex :: "'a list \<Rightarrow> ('a \<Rightarrow> bool) \<Rightarrow> int" where
  \<comment> \<open>\<open>Array.prototype.findIndex\<close>\<close>
  "findIndex xs P = findIndexFrom P xs 0"

text \<open>
  Modelled from the spec: \<open>findLastIndex\<close> is called by every \<open>enhance...Prompt\<close> but is
  not in the sources. By the spec the thinking instructions go to the \<^emph>\<open>last\<close> user-role
  message, so it is the greatest index whose element satisfies the predicate, \<open>-1\<close> if none.
\<close>

definition findLastIndex :: "'a list \<Rightarrow> ('a \<Rightarrow> bool) \<Rightarrow> int" where
  "findLastIndex xs P =
     (let i = findIndex (rev xs) P in if i < 0 then - 1 else int (length xs) - 1 - i)"

text \<open>
  The body shared, word for word, by \<open>enhanceChatGPTPrompt\<close>, \<open>enhancePerplexityPrompt\<close>,
  \<open>enhanceCopilotPrompt\<close>, \<open>enhanceDeepSeekPrompt\<close> and \<open>enhanceGrok3Prompt\<close>. The deep copy
  \<open>JSON.parse(JSON.stringify(platformPrompt))\<close> is the identity on a value; reading
  \<open>messages\<close> of a prompt that has none is a TypeError.
\<close>

definition enhanceMessages :: "env \<Rightarrow> prompt \<Rightarrow> thinkingPrompts \<Rightarrow> error + prompt" where
  "enhanceMessages e platformPrompt thinkingPrompts =
     (case platformPrompt of
        Contents cs \<Rightarrow> Inl TypeError
      | Messages messages \<Rightarrow>
          let systemMessageIndex = findIndex messages (\<lambda>msg. m_role msg = ''system'');
              messages1 =
                (if systemMessageIndex \<ge> 0 then
                   messages[nat systemMessageIndex :=
                     (messages ! nat systemMessageIndex)
                       \<lparr>m_content := tp_systemPrompt thinkingPrompts @ '' '' @
                          m_content (messages ! nat systemMessageIndex)\<rparr>]
                 else \<lparr>m_role = ''system'', m_content = tp_systemPrompt thinkingPrompts\<rparr> # messages);
              lastUserMessageIndex = findLastIndex messages1 (\<lambda>msg. m_role msg = ''user'');
              messages2 =
                (if lastUserMessageIndex \<ge> 0 then
                   messages1[nat lastUserMessageIndex :=
                     (messages1 ! nat lastUserMessageIndex)
                       \<lparr>m_content := m_content (messages1 ! nat lastUserMessageIndex) @
                          [CHR 0x0A, CHR 0x0A] @ generateThinkingInstructions e thinkingPrompts\<rparr>]
                 else messages1)
          in Inr (Messages messages2))"



definition enhanceChatGPTPrompt :: "env \<Rightarrow> prompt \<Rightarrow> thinkingPrompts \<Rightarrow> error + prompt" where
  "enhanceChatGPTPrompt e platformPrompt thinkingPrompts =
     enhanceMessages e platformPrompt thinkingPrompts"

definition enhancePerplexityPrompt :: "env \<Rightarrow> prompt \<Rightarrow> thinkingPrompts \<Rightarrow> error + prompt" where
  "enhancePerplexityPrompt e platformPrompt thinkingPrompts =
     enhanceMessages e platformPrompt thinkingPrompts"

definition enhanceCopilotPrompt :: "env \<Rightarrow> prompt \<Rightarrow> thinkingPrompts \<Rightarrow> error + prompt" where
  "enhanceCopilotPrompt e platformPrompt thinkingPrompts =
     enhanceMessages e platformPrompt thinkingPrompts"

definition enhanceDeepSeekPrompt :: "env \<Rightarrow> prompt \<Rightarrow> thinkingPrompts \<Rightarrow> error + prompt" where
  "enhanceDeepSeekPrompt e platformPrompt thinkingPrompts =
     enhanceMessages e platformPrompt thinkingPrompts"

definition enhanceGrok3Prompt :: "env \<Rightarrow> prompt \<Rightarrow> thinkingPrompts \<Rightarrow> error + prompt" where
  "enhanceGrok3Prompt e platformPrompt thinkingPrompts =
     enhanceMessages e platformPrompt thinkingPrompts"

definition prependPart :: "string \<Rightarrow> geminiContent \<Rightarrow> error + geminiContent" where
  \<comment> \<open>\<open>c.parts[0].text = `${s} ${c.parts[0].text}`\<close>\<close>
  "prependPart s c =
     (case g_parts c of [] \<Rightarrow> Inl TypeError
      | t # rest \<Rightarrow> Inr (c\<lparr>g_parts := (s @ '' '' @ t) # rest\<rparr>))"

definition appendPart :: "string \<Rightarrow> geminiContent \<Rightarrow> error + geminiContent" where
  \<comment> \<open>\<open>c.parts[0].text = `${c.parts[0].text}\n\n${s}`\<close>\<close>
  "appendPart s c =
     (case g_parts c of [] \<Rightarrow> Inl TypeError
      | t # rest \<Rightarrow> Inr (c\<lparr>g_parts := (t @ [CHR 0x0A, CHR 0x0A] @ s) # rest\<rparr>))"

definition enhanceGeminiPrompt :: "env \<Rightarrow> prompt \<Rightarrow> thinkingPrompts \<Rightarrow> error + prompt" where
  "enhanceGeminiPrompt e platformPrompt thinkingPrompts =
     (case platformPrompt of
        Messages ms \<Rightarrow> Inl TypeError
      | Contents contents \<Rightarrow>
          let systemMessageIndex = findIndex contents (\<lambda>msg. g_role msg = ''system'') in
          bindE (if systemMessageIndex \<ge> 0 then
                   bindE (prependPart (tp_systemPrompt thinkingPrompts)
                            (contents ! nat systemMessageIndex))
                     (\<lambda>c. Inr (contents[nat systemMessageIndex := c]))
                 else Inr (\<lparr>g_role = ''system'', g_parts = [tp_systemPrompt thinkingPrompts]\<rparr>
                             # contents)) (\<lambda>contents1.
          let lastUserMessageIndex = findLastIndex contents1 (\<lambda>msg. g_role msg = ''user'') in
          bindE (if lastUserMessageIndex \<ge> 0 then
                   bindE (appendPart (generateThinkingInstructions e thinkingPrompts)
                            (contents1 ! nat lastUserMessageIndex))
                     (\<lambda>c. Inr (contents1[nat lastUserMessageIndex := c]))
                 else Inr contents1) (\<lambda>contents2.
          Inr (Contents contents2))))"



definition enhancePromptWithThinking ::
  "env \<Rightarrow> prompt \<Rightarrow> thinkingPrompts \<Rightarrow> string \<Rightarrow> error + prompt" where
  "enhancePromptWithThinking e platformPrompt thinkingPrompts platform =
     (if platform = ''chatgpt'' then enhanceChatGPTPrompt e platformPrompt thinkingPrompts
      else if platform = ''perplexity'' then enhancePerplexityPrompt e platformPrompt thinkingPrompts
      else if platform = ''gemini'' then enhanceGeminiPrompt e platformPrompt thinkingPrompts
      else if platform = ''copilot'' then enhanceCopilotPrompt e platformPrompt thinkingPrompts
      else if platform = ''deepseek'' then enhanceDeepSeekPrompt e platformPrompt thinkingPrompts
      else if platform = ''grok3'' then enhanceGrok3Prompt e platformPrompt thinkingPrompts
      else if platform = ''vertix'' then enhanceVertixPrompt e platformPrompt thinkingPrompts
      else if platform = ''local'' then enhanceLocalPrompt e platformPrompt thinkingPrompts
      else enhanceChatGPTPrompt e platformPrompt thinkingPrompts)"

section \<open>ResponseSynthesizer: processing and merging\<close>

text \<open>
  \<open>renderResponse\<close> of the environment stands for \<open>extractThinkingProcess\<close> followed by
  \<open>formatResponse\<close>: the former and \<open>formatThinkingProcess\<close> are not in the sources. It
  takes the content and the platform and may throw. \<open>mergeResponses\<close> calls it with the
  platform \<open>merged\<close>, where no thinking process is extracted. The merge strategies
  \<open>mergeSequential\<close>, \<open>mergeBestFirst\<close> and \<open>mergeTaskSpecific\<close> are not in the sources
  either.
\<close>

definition processResponseTry :: "env \<Rightarrow> json \<Rightarrow> routingDecision \<Rightarrow> error + response" where
  "processResponseTry e resp requestInfo =
     bindE (extractContent e resp (keyOf (rd_platform requestInfo))) (\<lambda>content.
     bindE (renderResponse e content (keyOf (rd_platform requestInfo))) (\<lambda>formatted.
       Inr \<lparr>r_content = content, r_formattedResponse = formatted, r_error = None,
            r_originalError = None, r_platform = rd_platform requestInfo,
            r_taskType = Some (rd_taskType requestInfo),
            r_userId = Some (rd_userId requestInfo), r_routingInfo = None, r_sources = []\<rparr>))"

definition processResponse :: "env \<Rightarrow> json \<Rightarrow> routingDecision \<Rightarrow> response" where
  "processResponse e resp requestInfo =
     (case processResponseTry e resp requestInfo of
        Inr processedResponse \<Rightarrow> processedResponse
      | Inl err \<Rightarrow>
          \<lparr>r_content = JStr ''I encountered an issue processing the response. Please try again.'',
           r_formattedResponse = JStr ''I encountered an issue processing the response. Please try again.'',
           r_error = Some (errorMessage err), r_originalError = None,
           r_platform = rd_platform requestInfo,
           r_taskType = Some (rd_taskType requestInfo),
           r_userId = Some (rd_userId requestInfo), r_routingInfo = None, r_sources = []\<rparr>)"

definition mergeResponsesTry :: "env \<Rightarrow> response list \<Rightarrow> string option \<Rightarrow> error + response" where
  "mergeResponsesTry e responses optStrategy =
     (if responses = [] then Inl (Error ''No responses to merge'')
      else if length responses = 1 then Inr (hd responses)
      else
        let strategy = (case optStrategy of None \<Rightarrow> ''sequential''
                        | Some st \<Rightarrow> if st = [] then ''sequential'' else st) in
        bindE (if strategy = ''sequential'' then mergeSequential e responses
               else if strategy = ''best_first'' then mergeBestFirst e responses
               else if strategy = ''task_specific'' then mergeTaskSpecific e responses
               else mergeSequential e responses) (\<lambda>content.
        bindE (renderResponse e content ''merged'') (\<lambda>formatted.
          Inr \<lparr>r_content = content, r_formattedResponse = formatted, r_error = None,
               r_originalError = None, r_platform = Some ''merged'',
               r_taskType = r_taskType (hd responses), r_userId = r_userId (hd responses),
               r_routingInfo = None,
               r_sources = map (\<lambda>r. (r_platform r, r_taskType r)) responses\<rparr>)))"

definition orUnknown :: "string option \<Rightarrow> string option" where
  \<comment> \<open>\<open>v || 'unknown'\<close>\<close>
  "orUnknown v = (case v of None \<Rightarrow> Some ''unknown''
                  | Some x \<Rightarrow> if x = [] then Some ''unknown'' else Some x)"

definition mergeResponses :: "env \<Rightarrow> response list \<Rightarrow> string option \<Rightarrow> response" where
  "mergeResponses e responses optStrategy =
     (case mergeResponsesTry e responses optStrategy of
        Inr mergedResponse \<Rightarrow> mergedResponse
      | Inl err \<Rightarrow>
          \<lparr>r_content = JStr ''I encountered an issue merging the responses. Please try again.'',
           r_formattedResponse = JStr ''I encountered an issue merging the responses. Please try again.'',
           r_error = Some (errorMessage err), r_originalError = None,
           r_platform = Some ''merged'',
           r_taskType = orUnknown (case responses of [] \<Rightarrow> None | r # rest \<Rightarrow> r_taskType r),
           r_userId = orUnknown (case responses of [] \<Rightarrow> None | r # rest \<Rightarrow> r_userId r),
           r_routingInfo = None, r_sources = []\<rparr>)"

section \<open>OrchestrationLayer\<close>

text \<open>
  The state a request runs in: \<open>calls\<close> lists the platforms whose module's
  \<open>generateResponse\<close> has been invoked, in order; \<open>db\<close> lists the turns saved.
\<close>

record state =
  calls :: "string list"
  db :: "savedTurn list"
  initialized :: bool

definition providerSet :: "string list" where
  \<comment> \<open>the keys of \<open>platformModules\<close>\<close>
  "providerSet = [''chatgpt'', ''perplexity'', ''gemini'', ''copilot'', ''deepseek'',
                  ''grok3'', ''vertix'', ''local'']"

definition initialize :: "env \<Rightarrow> state \<Rightarrow> state" where
  \<comment> \<open>a failure of \<open>contextManager.initialize\<close> is caught and leaves the flag unset\<close>
  "initialize e s =
     (case vectorDbInitialize e of None \<Rightarrow> s\<lparr>initialized := True\<rparr> | Some err \<Rightarrow> s)"

definition platformModules :: "(string \<times> string) list" where
  \<comment> \<open>the object literal of \<open>getPlatformModule\<close>; a module is named by its platform\<close>
  "platformModules = map (\<lambda>platform. (platform, platform)) providerSet"

definition getPlatformModule :: "env \<Rightarrow> string option \<Rightarrow> string member" where
  \<comment> \<open>\<open>platformModules[platform]\<close>. \<open>Absent\<close> is \<open>undefined\<close> (no such key) or \<open>null\<close> (a
      \<open>require\<close> threw); \<open>Inherited\<close> is a member of \<open>Object.prototype\<close>, which is truthy
      and has no \<open>generateResponse\<close>\<close>
  "getPlatformModule e platform =
     (if platformModulesLoad e then lookupMember platformModules (keyOf platform) else Absent)"

definition processRequestTry ::
  "env \<Rightarrow> string \<Rightarrow> string \<Rightarrow> options \<Rightarrow> state \<Rightarrow> (error + response) \<times> state" where
  \<comment> \<open>the \<open>try\<close> block of \<open>processRequest\<close>; an inherited member passes the guard
      \<open>!platformModule\<close>, and calling its \<open>generateResponse\<close>, which is \<open>undefined\<close>, is a
      TypeError\<close>
  "processRequestTry e userInput userId opts s0 =
     (let s = (if \<not> initialized s0 then initialize e s0 else s0);
          routingInfo = routeRequest e (db s) userInput userId opts;
          context = getContext e (db s) userId (rd_platform routingInfo)
                      (Some userInput) (o_enableSemanticSearch opts)
      in case generateThinkingPrompts (rd_taskType routingInfo) of
           Inl err \<Rightarrow> (Inl err, s)
         | Inr thinkingPrompts \<Rightarrow>
             (let platformContext =
                    formatContextForPlatform context (keyOf (rd_platform routingInfo))
              in case enhancePromptWithThinking e platformContext thinkingPrompts
                        (keyOf (rd_platform routingInfo)) of
                   Inl err \<Rightarrow> (Inl err, s)
                 | Inr enhancedPrompt \<Rightarrow>
                     (case getPlatformModule e (rd_platform routingInfo) of
                        Absent \<Rightarrow>
                          (Inl (Error (''Platform module not found for ''
                                       @ keyOf (rd_platform routingInfo))), s)
                      | Inherited \<Rightarrow> (Inl TypeError, s)
                      | Own platformModule \<Rightarrow>
                          let s1 = s\<lparr>calls := calls s @ [platformModule]\<rparr> in
                          (case generateResponse e platformModule (length (calls s))
                                  enhancedPrompt of
                             Inl err \<Rightarrow> (Inl err, s1)
                           | Inr platformResponse \<Rightarrow>
                               let processedResponse =
                                     processResponse e platformResponse routingInfo;
                                   s2 = s1\<lparr>db := saveContext e (db s1) userId userInput
                                                (r_content processedResponse)
                                                (rd_platform routingInfo)
                                                (rd_taskType routingInfo)\<rparr>
                               in (Inr (processedResponse\<lparr>r_routingInfo := Some routingInfo\<rparr>),
                                   s2)))))"

definition errorResponse :: "string \<Rightarrow> error \<Rightarrow> string \<Rightarrow> response" where
  "errorResponse text err userId =
     \<lparr>r_content = JStr text, r_formattedResponse = JStr text,
      r_error = Some (errorMessage err), r_originalError = None, r_platform = None,
      r_taskType = None, r_userId = Some userId, r_routingInfo = None, r_sources = []\<rparr>"

definition fallbackPlatform :: "routingDecision \<Rightarrow> options \<Rightarrow> string option" where
  \<comment> \<open>the choice of \<open>fallbackPlatform\<close> in \<open>handleFallback\<close>\<close>
  "fallbackPlatform routingInfo opts =
     (if o_isFallbackSecondary opts then rd_fallback routingInfo
      else rd_secondary routingInfo)"

text \<open>
  \<open>processRequest\<close> and \<open>handleFallback\<close> call each other. \<open>routeRequest\<close> does not throw
  and the promise of the inner \<open>processRequest\<close> is returned without \<open>await\<close>, so the
  \<open>catch\<close> of \<open>handleFallback\<close> is never entered.
\<close>

function processRequest ::
    "env \<Rightarrow> string \<Rightarrow> string \<Rightarrow> options \<Rightarrow> state \<Rightarrow> response \<times> state"
  and handleFallback ::
    "env \<Rightarrow> string \<Rightarrow> string \<Rightarrow> error \<Rightarrow> options \<Rightarrow> state \<Rightarrow> response \<times> state"
where
  "processRequest e userInput userId opts s0 =
     (case processRequestTry e userInput userId opts s0 of
        (Inr result, s) \<Rightarrow> (result, s)
      | (Inl err, s) \<Rightarrow>
          if o_enableFallback opts \<noteq> Some False \<and> \<not> o_isFallback opts
          then handleFallback e userInput userId err opts s
          else (errorResponse
                  ''I encountered an issue processing your request. Please try again.''
                  err userId, s))"
| "handleFallback e userInput userId err opts s =
     (let routingInfo = routeRequest e (db s) userInput userId opts in
      processRequest e userInput userId
        (opts\<lparr>o_isFallback := True,
              o_isFallbackSecondary := \<not> o_isFallbackSecondary opts,
              o_overridePlatform := fallbackPlatform routingInfo opts\<rparr>) s)"
  by pat_completeness auto
termination
  by (relation "measure (\<lambda>x. case x of
          Inl (e, userInput, userId, opts, s) \<Rightarrow> (if o_isFallback opts then 0 else 2)
        | Inr (e, userInput, userId, err, opts, s) \<Rightarrow> 1)") auto

declare processRequest.simps [simp del] handleFallback.simps [simp del]

fun processEachPlatform ::
  "env \<Rightarrow> string \<Rightarrow> string \<Rightarrow> options \<Rightarrow> string list \<Rightarrow> response list \<Rightarrow> state
     \<Rightarrow> response list \<times> state" where
  \<comment> \<open>the loop \<open>for (const platform of platforms)\<close>; \<open>processRequest\<close> never throws, so
      every branch's result is pushed\<close>
  "processEachPlatform e userInput userId opts [] platformResponses s = (platformResponses, s)"
| "processEachPlatform e userInput userId opts (platform # rest) platformResponses s =
     (case processRequest e userInput userId
             (opts\<lparr>o_overridePlatform := Some platform, o_enableFallback := Some False\<rparr>) s of
        (platformResponse, s') \<Rightarrow>
          processEachPlatform e userInput userId opts rest
            (platformResponses @ [platformResponse]) s')"

definition processMultiPlatformRequest ::
  "env \<Rightarrow> string \<Rightarrow> string \<Rightarrow> string list \<Rightarrow> options \<Rightarrow> state \<Rightarrow> response \<times> state" where
  \<comment> \<open>\<open>options.mergeStrategy || 'task_specific'\<close>; nothing in the \<open>try\<close> block throws\<close>
  "processMultiPlatformRequest e userInput userId platforms opts s0 =
     (let s = (if \<not> initialized s0 then initialize e s0 else s0);
          routingInfo = routeRequest e (db s) userInput userId opts
      in case processEachPlatform e userInput userId opts platforms [] s of
           (platformResponses, s') \<Rightarrow>
             let mergedResponse =
                   mergeResponses e platformResponses
                     (case o_mergeStrategy opts of None \<Rightarrow> Some ''task_specific''
                      | Some st \<Rightarrow> if st = [] then Some ''task_specific'' else Some st)
             in (mergedResponse\<lparr>r_routingInfo := Some routingInfo\<rparr>, s'))"

section \<open>Concrete scenarios\<close>

definition okResponse :: json where
  \<comment> \<open>\<open>{choices: [{message: {content: 'ok'}}]}\<close>\<close>
  "okResponse = JObj [(''choices'', JArr [JObj [(''message'', JObj [(''content'', JStr ''ok'')])]])]"

text \<open>
  An installation with no learned classifier, an empty conversation history and every
  platform module answering \<open>okResponse\<close>.
\<close>

definition healthyEnv :: env where
  "healthyEnv =
     \<lparr>stringify = (\<lambda>v. JStr ''{}''),
      toNumber = (\<lambda>v. None),
      toStr = (\<lambda>v. ''[object Object]''),
      ML_CONFIDENCE_THRESHOLD = None,
      MAX_CONTEXT_LENGTH = 0,
      classifierInitialized = False,
      classify = (\<lambda>userInput context. Inl (Error ''classifier not initialized'')),
      vectorDbInitialize = None,
      getConversationHistory = (\<lambda>saved userId maxTurns. Inr []),
      searchSimilarConversations = (\<lambda>saved userId queryText topK. Inr []),
      saveConversationTurn = (\<lambda>saved t. None),
      platformModulesLoad = True,
      generateResponse = (\<lambda>platform n enhancedPrompt. Inr okResponse),
      generateThinkingInstructions = (\<lambda>thinkingPrompts. ''Please think step by step.''),
      enhanceVertixPrompt = (\<lambda>platformPrompt thinkingPrompts. Inr platformPrompt),
      enhanceLocalPrompt = (\<lambda>platformPrompt thinkingPrompts. Inr platformPrompt),
      renderResponse = (\<lambda>content platform. Inr content),
      mergeSequential = (\<lambda>responses. Inr (JStr ''merged'')),
      mergeBestFirst = (\<lambda>responses. Inr (JStr ''merged'')),
      mergeTaskSpecific = (\<lambda>responses. Inr (JStr ''merged''))\<rparr>"

text \<open>The same installation with the ChatGPT module rejecting every call (status 401).\<close>

definition chatgptDownEnv :: env where
  "chatgptDownEnv =
     healthyEnv\<lparr>generateResponse := (\<lambda>platform n enhancedPrompt.
        if platform = ''chatgpt''
        then Inl (Error ''ChatGPT API error: Request failed with status code 401'')
        else Inr okResponse)\<rparr>"

text \<open>The same installation with a learned classifier that is initialized and throws.\<close>

definition classifierThrowsEnv :: env where
  "classifierThrowsEnv =
     healthyEnv\<lparr>classifierInitialized := True,
                classify := (\<lambda>userInput context. Inl (Error ''model unavailable''))\<rparr>"

definition defaultOptions :: options where
  \<comment> \<open>\<open>options = {}\<close>\<close>
  "defaultOptions =
     \<lparr>o_preferredPlatform = None, o_optimizeCost = False, o_isPremiumUser = False,
      o_enableFallback = None, o_isFallback = False, o_isFallbackSecondary = False,
      o_overridePlatform = None, o_enableSemanticSearch = False, o_mergeStrategy = None\<rparr>"

text \<open>
  A learned classifier that is initialized and answers \<open>research\<close> with confidence
  \<open>0.5\<close>, below the configured threshold \<open>0.7\<close>.
\<close>

definition lowConfidenceEnv :: env where
  "lowConfidenceEnv =
     healthyEnv\<lparr>classifierInitialized := True,
                classify := (\<lambda>userInput context.
                   Inr \<lparr>ml_taskType = ''research'', ml_confidence = 1 / 2\<rparr>),
                ML_CONFIDENCE_THRESHOLD := Some (7 / 10)\<rparr>"

definition isAsciiLetter :: "char \<Rightarrow> bool" where
  \<comment> \<open>the characters that \<open>toLowerCase\<close> maps into \<open>[a-z]\<close>\<close>
  "isAsciiLetter c =
     (let n = (of_char c :: nat) in (65 \<le> n \<and> n \<le> 90) \<or> (97 \<le> n \<and> n \<le> 122))"

definition cppBlock :: string where
  \<comment> \<open>a fenced code block with the info string \<open>c++\<close>\<close>
  "cppBlock = ''```c++'' @ [CHR 0x0A] @ ''int x;'' @ [CHR 0x0A] @ ''```''"

definition jsBlock :: string where
  \<comment> \<open>a fenced code block with the info string \<open>JS\<close>\<close>
  "jsBlock = ''```JS'' @ [CHR 0x0A] @ ''let x;'' @ [CHR 0x0A] @ ''```''"

definition bardOptions :: options where
  \<comment> \<open>\<open>options = {userPreferences: {preferredPlatform: 'bard'}}\<close>\<close>
  "bardOptions = defaultOptions\<lparr>o_preferredPlatform := Some ''bard''\<rparr>"

definition constructorOptions :: options where
  \<comment> \<open>\<open>options = {userPreferences: {preferredPlatform: 'constructor'}}\<close>\<close>
  "constructorOptions = defaultOptions\<lparr>o_preferredPlatform := Some ''constructor''\<rparr>"

text \<open>
  A learned classifier that is initialized and answers the task type \<open>constructor\<close> with
  confidence \<open>0.9\<close>, above the configured threshold \<open>0.7\<close>.
\<close>

definition constructorClassifierEnv :: env where
  "constructorClassifierEnv =
     healthyEnv\<lparr>classifierInitialized := True,
                classify := (\<lambda>userInput context.
                   Inr \<lparr>ml_taskType = ''constructor'', ml_confidence = 9 / 10\<rparr>),
                ML_CONFIDENCE_THRESHOLD := Some (7 / 10)\<rparr>"




definition initialState :: state where
  "initialState = \<lparr>calls = [], db = [], initialized = False\<rparr>"

text \<open>
  Two turns of 2 and 16 words. In exact arithmetic their estimate is \<open>18 * 1.3 = 23.4\<close>,
  which is \<open>26 * 0.9\<close>; in doubles the sum is \<open>23.400000000000006\<close> and the limit is
  \<open>23.400000000000002\<close>.
\<close>

definition turnA :: turn where
  "turnA = \<lparr>t_userId = ''u1'', t_userInput = ''a'', t_aiResponse = ''b'',
             t_platform = ''chatgpt'', t_taskType = ''general'', t_isSystemMessage = False\<rparr>"

definition turnB :: turn where
  "turnB = \<lparr>t_userId = ''u1'', t_userInput = ''c d e'',
             t_aiResponse = ''f g h i j k l m n o p q r'',
             t_platform = ''chatgpt'', t_taskType = ''general'', t_isSystemMessage = False\<rparr>"

section \<open>Context trimming\<close>

text \<open>
  Rounding keeps the sign, so the limit \<open>contextWindowSize * 0.9\<close> of a window that is a
  natural number is not negative.
\<close>

lemma pow2_pos: "0 < pow2 k"
  by (simp add: pow2_def)

lemma roundHalfEven_nonneg: "0 \<le> y \<Longrightarrow> 0 \<le> roundHalfEven y"
  by (auto simp: roundHalfEven_def Let_def)

lemma roundDouble_nonneg:
  assumes "0 \<le> x"
  shows "0 \<le> roundDouble x"
proof (cases "x = 0")
  case True
  then show ?thesis by (simp add: roundDouble_def)
next
  case False
  with assms have x: "0 < x" by simp
  let ?e = "exponentOf \<bar>x\<bar> - 52"
  have "0 \<le> \<bar>x\<bar> / pow2 ?e"
    using pow2_pos [of ?e] by simp
  then have "0 \<le> roundHalfEven (\<bar>x\<bar> / pow2 ?e)"
    by (rule roundHalfEven_nonneg)
  then have "0 \<le> (of_int (roundHalfEven (\<bar>x\<bar> / pow2 ?e)) :: rat) * pow2 ?e"
    using pow2_pos [of ?e] by simp
  then show ?thesis
    using x False by (simp add: roundDouble_def Let_def)
qed

lemma windowLimit_nonneg:
  assumes "windowLimit (numberOfNat contextWindowSize) = Some limit"
  shows "0 \<le> limit"
proof -
  have "0 \<le> roundDouble (of_nat contextWindowSize)"
    by (rule roundDouble_nonneg) simp
  moreover have "0 \<le> double_0_9"
    unfolding double_0_9_def by (rule roundDouble_nonneg) simp
  ultimately have "0 \<le> roundDouble (of_nat contextWindowSize) * double_0_9"
    by simp
  then have "0 \<le> mulDouble (roundDouble (of_nat contextWindowSize)) double_0_9"
    unfolding mulDouble_def by (rule roundDouble_nonneg)
  then show ?thesis
    using assms by (simp add: windowLimit_def numberOfNat_def)
qed

lemma cumulativeTokens_Cons:
  "cumulativeTokens (t # ts) = addDouble (cumulativeTokens ts) (turnTokens t)"
  by (simp add: cumulativeTokens_def)

lemma optimizeLoop_invariant:
  assumes "i \<le> length context" and "acc = drop i context"
    and "tot = cumulativeTokens acc" and "tot \<le> limit"
    and "cumulativeTokens context > limit"
  shows "\<exists>k. 0 < k \<and> k \<le> i \<and> optimizeLoop context (Some limit) i tot acc = drop k context
           \<and> cumulativeTokens (drop k context) \<le> limit
           \<and> cumulativeTokens (drop (k - 1) context) > limit"
  using assms
proof (induction i arbitrary: acc tot)
  case 0
  then show ?case by simp
next
  case (Suc i)
  let ?t = "context ! i"
  from Suc.prems(1) have lt: "i < length context" by simp
  have dr: "drop i context = ?t # acc"
    using Suc.prems(2) lt by (simp add: Cons_nth_drop_Suc)
  have cum: "cumulativeTokens (drop i context) = addDouble tot (turnTokens ?t)"
    using dr Suc.prems(3) by (simp add: cumulativeTokens_Cons)
  show ?case
  proof (cases "addDouble tot (turnTokens ?t) > limit")
    case True
    then have "optimizeLoop context (Some limit) (Suc i) tot acc = drop (Suc i) context"
      using Suc.prems(2) by (simp add: exceedsLimit_def)
    moreover have "cumulativeTokens (drop (Suc i) context) \<le> limit"
      using Suc.prems by simp
    moreover have "cumulativeTokens (drop (Suc i - 1) context) > limit"
      using True cum by simp
    ultimately show ?thesis by blast
  next
    case False
    then have step: "optimizeLoop context (Some limit) (Suc i) tot acc =
                optimizeLoop context (Some limit) i (addDouble tot (turnTokens ?t)) (?t # acc)"
      by (simp add: exceedsLimit_def Let_def)
    have "\<exists>k. 0 < k \<and> k \<le> i
            \<and> optimizeLoop context (Some limit) i (addDouble tot (turnTokens ?t)) (?t # acc)
                = drop k context
            \<and> cumulativeTokens (drop k context) \<le> limit
            \<and> cumulativeTokens (drop (k - 1) context) > limit"
    proof (rule Suc.IH)
      show "i \<le> length context" using lt by simp
      show "?t # acc = drop i context" using dr by simp
      show "addDouble tot (turnTokens ?t) = cumulativeTokens (?t # acc)"
        using cum dr by simp
      show "addDouble tot (turnTokens ?t) \<le> limit" using False by simp
      show "cumulativeTokens context > limit" by (rule Suc.prems(5))
    qed
    then obtain k where "0 < k" "k \<le> i"
      and "optimizeLoop context (Some limit) i (addDouble tot (turnTokens ?t)) (?t # acc)
             = drop k context"
      and "cumulativeTokens (drop k context) \<le> limit"
      and "cumulativeTokens (drop (k - 1) context) > limit" by blast
    with step show ?thesis by (intro exI [of _ k]) simp
  qed
qed

lemma optimizeLoop_NaN:
  "optimizeLoop context None i tot acc = take i context @ acc" if "i \<le> length context"
  using that
proof (induction i arbitrary: tot acc)
  case 0
  then show ?case by simp
next
  case (Suc i)
  then show ?case by (simp add: exceedsLimit_def take_Suc_conv_app_nth)
qed

lemma double_1_3_value: "double_1_3 = 5854679515581645 / 4503599627370496"
  by code_simp

lemma double_0_9_value: "double_0_9 = 8106479329266893 / 9007199254740992"
  by code_simp

lemma mulDouble_1_3:
  "mulDouble 1 (5854679515581645 / 4503599627370496) = 5854679515581645 / 4503599627370496"
  "mulDouble 3 (5854679515581645 / 4503599627370496) = 2195504818343117 / 562949953421312"
  "mulDouble 13 (5854679515581645 / 4503599627370496) = 4756927106410087 / 281474976710656"
  by code_simp+

lemma addDouble_turns:
  "addDouble (5854679515581645 / 4503599627370496) (5854679515581645 / 4503599627370496)
     = 5854679515581645 / 2251799813685248"
  "addDouble (2195504818343117 / 562949953421312) (4756927106410087 / 281474976710656)
     = 2927339757790823 / 140737488355328"
  "addDouble 0 (2927339757790823 / 140737488355328) = 2927339757790823 / 140737488355328"
  "addDouble (2927339757790823 / 140737488355328) (5854679515581645 / 2251799813685248)
     = 823314306878669 / 35184372088832"
  by code_simp+

lemma roundDouble_26: "roundDouble 26 = 26"
  by code_simp

lemma mulDouble_26:
  "mulDouble 26 (8106479329266893 / 9007199254740992) = 6586514455029351 / 281474976710656"
  by code_simp

lemma turnTokens_turnA: "turnTokens turnA = 5854679515581645 / 2251799813685248"
  by (simp add: turnTokens_def turnA_def estimateTokens_def isSpaceJS_def double_1_3_value
        mulDouble_1_3 addDouble_turns)

lemma turnTokens_turnB: "turnTokens turnB = 2927339757790823 / 140737488355328"
  by (simp add: turnTokens_def turnB_def estimateTokens_def isSpaceJS_def double_1_3_value
        mulDouble_1_3 addDouble_turns)

lemma cumulativeTokens_turnB:
  "cumulativeTokens [turnB] = 2927339757790823 / 140737488355328"
  by (simp add: cumulativeTokens_def turnTokens_turnB addDouble_turns)

lemma cumulativeTokens_turnA_turnB:
  "cumulativeTokens [turnA, turnB] = 823314306878669 / 35184372088832"
  by (simp add: cumulativeTokens_def turnTokens_turnA turnTokens_turnB addDouble_turns)

lemma windowLimit_26: "windowLimit (numberOfNat 26) = Some (6586514455029351 / 281474976710656)"
  by (simp add: windowLimit_def numberOfNat_def roundDouble_26 double_0_9_value mulDouble_26)

lemma optimizeContext_turnA_turnB: "optimizeContext [turnA, turnB] (numberOfNat 26) = [turnB]"
  by (simp add: optimizeContext_def windowLimit_26 numeral_2_eq_2 exceedsLimit_def
        turnTokens_turnA turnTokens_turnB addDouble_turns)

text \<open>Against a limit that is NaN the comparison never holds and every turn is kept.\<close>

lemma optimizeContext_NaN: "optimizeContext context None = context"
  by (simp add: optimizeContext_def windowLimit_def optimizeLoop_NaN)

text \<open>
  C3. Let the window be a natural number, \<open>limit\<close> the double \<open>contextWindowSize * 0.9\<close>,
  and let the estimate of a list of turns be the double that the loop adds up, from the
  most recent turn backwards. For every list of turns whose estimate exceeds the limit,
  \<open>optimizeContext\<close> returns \<open>drop k context\<close> for some \<open>k > 0\<close>: a contiguous suffix of
  the input (the most recent turns, in the order of the input) whose estimate is at
  most the limit. The suffix is the longest such one the loop meets: with the turn just
  before it the estimate exceeds the limit.
\<close>

theorem optimizeContext_suffix_within_budget:
  assumes "windowLimit (numberOfNat contextWindowSize) = Some limit"
    and "cumulativeTokens context > limit"
  shows "\<exists>k. 0 < k \<and> k \<le> length context
           \<and> optimizeContext context (numberOfNat contextWindowSize) = drop k context
           \<and> suffix (optimizeContext context (numberOfNat contextWindowSize)) context
           \<and> cumulativeTokens (optimizeContext context (numberOfNat contextWindowSize)) \<le> limit
           \<and> cumulativeTokens (drop (k - 1) context) > limit"
proof -
  have "0 \<le> limit" using assms(1) by (rule windowLimit_nonneg)
  then have "\<exists>k. 0 < k \<and> k \<le> length context
        \<and> optimizeLoop context (Some limit) (length context) 0 [] = drop k context
        \<and> cumulativeTokens (drop k context) \<le> limit
        \<and> cumulativeTokens (drop (k - 1) context) > limit"
    using assms(2) by (intro optimizeLoop_invariant) (simp_all add: cumulativeTokens_def)
  then obtain k where k: "0 < k" "k \<le> length context"
      "optimizeLoop context (Some limit) (length context) 0 [] = drop k context"
      "cumulativeTokens (drop k context) \<le> limit"
      "cumulativeTokens (drop (k - 1) context) > limit"
    by blast
  have "optimizeContext context (numberOfNat contextWindowSize) = drop k context"
    using k(3) assms(1) by (simp add: optimizeContext_def)
  with k show ?thesis
    by (intro exI [of _ k]) (simp add: suffix_drop)
qed

theorem optimizeContext_suffix_within_budget_witness:
  "windowLimit (numberOfNat 26) = Some (6586514455029351 / 281474976710656)
   \<and> cumulativeTokens [turnA, turnB] > 6586514455029351 / 281474976710656
   \<and> optimizeContext [turnA, turnB] (numberOfNat 26) = [turnB]
   \<and> suffix (optimizeContext [turnA, turnB] (numberOfNat 26)) [turnA, turnB]
   \<and> cumulativeTokens (optimizeContext [turnA, turnB] (numberOfNat 26))
        \<le> 6586514455029351 / 281474976710656"
proof -
  have h: "cumulativeTokens [turnA, turnB] > 6586514455029351 / 281474976710656"
    by (simp add: cumulativeTokens_turnA_turnB)
  show ?thesis
    using optimizeContext_suffix_within_budget [OF windowLimit_26 h]
      windowLimit_26 h optimizeContext_turnA_turnB
    by auto
qed

section \<open>Content extraction on mismatched responses\<close>

text \<open>
  C8. \<open>extractContent\<close> is claimed to return a string for every raw response and never
  to throw. It guards only the outermost field: for the ChatGPT shape \<open>{choices: [{}]}\<close>
  (a choice without \<open>message\<close>) and for \<open>null\<close> it throws a TypeError, likewise for the
  Gemini shape \<open>{candidates: [{}]}\<close>; and for \<open>{choices: [{message: {}}]}\<close> it returns
  \<open>undefined\<close>, which is not a string.
\<close>

theorem extractContent_throws_on_nested_mismatch:
  "extractContent e (JObj [(''choices'', JArr [JObj []])]) ''chatgpt'' = Inl TypeError
   \<and> extractContent e JNull ''chatgpt'' = Inl TypeError
   \<and> extractContent e (JObj [(''candidates'', JArr [JObj []])]) ''gemini'' = Inl TypeError
   \<and> extractContent e (JObj [(''choices'', JArr [JObj [(''message'', JObj [])]])]) ''chatgpt''
       = Inr JUndefined"
  by (simp add: extractContent_def extractChatGPTContent_def extractGeminiContent_def
        nonEmptyArrayLike_def bindE_def greaterThanZero_def toNumberJS_def)

section \<open>Routing without secondary and fallback\<close>

lemma getPlatformForTask_override:
  assumes "o_preferredPlatform opts \<noteq> None" and "o_preferredPlatform opts \<noteq> Some []"
  shows "getPlatformForTask taskType opts =
           \<lparr>pi_platform = o_preferredPlatform opts, pi_taskType = taskType,
            pi_secondary = None, pi_fallback = None,
            pi_isUserPreferred = True, pi_isCostOptimized = False\<rparr>"
  using assms by (simp add: getPlatformForTask_def Let_def split: prod.splits)

lemma getPlatformForTask_cost:
  assumes "o_preferredPlatform opts = None \<or> o_preferredPlatform opts = Some []"
    and "o_optimizeCost opts" and "\<not> o_isPremiumUser opts"
  shows "pi_secondary (getPlatformForTask taskType opts) = None
       \<and> pi_fallback (getPlatformForTask taskType opts) = None
       \<and> pi_isCostOptimized (getPlatformForTask taskType opts)"
  using assms by (auto simp add: getPlatformForTask_def Let_def split: prod.splits)

text \<open>
  C10. When \<open>getPlatformForTask\<close> takes the user-preference branch or the
  cost-optimization branch, its result and the routing decision built from it have
  neither \<open>secondary\<close> nor \<open>fallback\<close>; the fallback platform that \<open>handleFallback\<close>
  then resolves is \<open>undefined\<close>, and that is what it passes on as \<open>overridePlatform\<close>.
\<close>

theorem override_and_cost_branches_carry_no_fallback:
  assumes "(o_preferredPlatform opts \<noteq> None \<and> o_preferredPlatform opts \<noteq> Some [])
           \<or> (o_optimizeCost opts \<and> \<not> o_isPremiumUser opts)"
  shows "pi_secondary (getPlatformForTask taskType opts) = None
       \<and> pi_fallback (getPlatformForTask taskType opts) = None
       \<and> rd_secondary (routeRequest e d userInput userId opts) = None
       \<and> rd_fallback (routeRequest e d userInput userId opts) = None
       \<and> fallbackPlatform (routeRequest e d userInput userId opts) opts = None
       \<and> handleFallback e userInput userId err opts s =
           processRequest e userInput userId
             (opts\<lparr>o_isFallback := True,
                   o_isFallbackSecondary := \<not> o_isFallbackSecondary opts,
                   o_overridePlatform := None\<rparr>) s"
proof -
  have a: "pi_secondary (getPlatformForTask t opts) = None
         \<and> pi_fallback (getPlatformForTask t opts) = None" for t
  proof (cases "o_preferredPlatform opts \<noteq> None \<and> o_preferredPlatform opts \<noteq> Some []")
    case True
    then show ?thesis by (simp add: getPlatformForTask_override)
  next
    case False
    then show ?thesis using assms getPlatformForTask_cost[of opts t] by auto
  qed
  have b: "rd_secondary (routeRequest e d' userInput userId opts) = None
         \<and> rd_fallback (routeRequest e d' userInput userId opts) = None" for d'
    using a by (simp add: routeRequest_def Let_def)
  have c: "fallbackPlatform (routeRequest e d' userInput userId opts) opts = None" for d'
    using b by (simp add: fallbackPlatform_def)
  show ?thesis using a b c by (simp add: handleFallback.simps Let_def)
qed

theorem override_and_cost_branches_carry_no_fallback_witness:
  "pi_secondary (getPlatformForTask ''code'' (defaultOptions\<lparr>o_preferredPlatform := Some ''gemini''\<rparr>)) = None
   \<and> pi_fallback (getPlatformForTask ''code'' (defaultOptions\<lparr>o_preferredPlatform := Some ''gemini''\<rparr>)) = None
   \<and> pi_platform (getPlatformForTask ''code'' (defaultOptions\<lparr>o_preferredPlatform := Some ''gemini''\<rparr>)) = Some ''gemini''
   \<and> fallbackPlatform (routeRequest healthyEnv [] ''hello'' ''u1''
          (defaultOptions\<lparr>o_preferredPlatform := Some ''gemini''\<rparr>))
        (defaultOptions\<lparr>o_preferredPlatform := Some ''gemini''\<rparr>) = None
   \<and> pi_secondary (getPlatformForTask ''code'' (defaultOptions\<lparr>o_optimizeCost := True\<rparr>)) = None
   \<and> pi_fallback (getPlatformForTask ''code'' (defaultOptions\<lparr>o_optimizeCost := True\<rparr>)) = None
   \<and> pi_platform (getPlatformForTask ''code'' (defaultOptions\<lparr>o_optimizeCost := True\<rparr>)) = Some ''local''
   \<and> fallbackPlatform (routeRequest healthyEnv [] ''hello'' ''u1''
          (defaultOptions\<lparr>o_optimizeCost := True\<rparr>))
        (defaultOptions\<lparr>o_optimizeCost := True\<rparr>) = None"
proof -
  have h1: "(o_preferredPlatform (defaultOptions\<lparr>o_preferredPlatform := Some ''gemini''\<rparr>) \<noteq> None
             \<and> o_preferredPlatform (defaultOptions\<lparr>o_preferredPlatform := Some ''gemini''\<rparr>) \<noteq> Some [])
           \<or> (o_optimizeCost (defaultOptions\<lparr>o_preferredPlatform := Some ''gemini''\<rparr>)
             \<and> \<not> o_isPremiumUser (defaultOptions\<lparr>o_preferredPlatform := Some ''gemini''\<rparr>))"
    by simp
  have h2: "(o_preferredPlatform (defaultOptions\<lparr>o_optimizeCost := True\<rparr>) \<noteq> None
             \<and> o_preferredPlatform (defaultOptions\<lparr>o_optimizeCost := True\<rparr>) \<noteq> Some [])
           \<or> (o_optimizeCost (defaultOptions\<lparr>o_optimizeCost := True\<rparr>)
             \<and> \<not> o_isPremiumUser (defaultOptions\<lparr>o_optimizeCost := True\<rparr>))"
    by (simp add: defaultOptions_def)
  have p1: "pi_platform (getPlatformForTask ''code'' (defaultOptions\<lparr>o_preferredPlatform := Some ''gemini''\<rparr>)) = Some ''gemini''"
    by (simp add: getPlatformForTask_def lookupMember_def platformMapping_def defaultOptions_def)
  have p2: "pi_platform (getPlatformForTask ''code'' (defaultOptions\<lparr>o_optimizeCost := True\<rparr>)) = Some ''local''"
    by (simp add: getPlatformForTask_def lookupMember_def platformMapping_def defaultOptions_def)
  show ?thesis
    using override_and_cost_branches_carry_no_fallback
            [OF h1, of "''code''" healthyEnv "[]" "''hello''" "''u1''"]
          override_and_cost_branches_carry_no_fallback
            [OF h2, of "''code''" healthyEnv "[]" "''hello''" "''u1''"]
          p1 p2
    by simp
qed

section \<open>Task classification\<close>

lemma includesJS_iff_sublist: "includesJS s kw \<longleftrightarrow> sublist kw s"
  by (induction s) (auto simp: sublist_Cons_right)

lemma toLowerCase_debug: "toLowerCase ''debug'' = ''debug''"
  by (simp add: toLowerCase_def toLowerChar_def)

lemma includes_debug_lower:
  assumes "sublist ''debug'' userInput"
  shows "includesJS (toLowerCase userInput) ''debug''"
proof -
  have "sublist (map toLowerChar ''debug'') (map toLowerChar userInput)"
    using assms by (rule map_mono_sublist)
  then show ?thesis
    using toLowerCase_debug by (simp add: includesJS_iff_sublist toLowerCase_def)
qed

lemma toLowerChar_letter: "isAsciiLetter c \<Longrightarrow> isLowerAZ (toLowerChar c)"
  by (auto simp: isAsciiLetter_def isLowerAZ_def toLowerChar_def Let_def)

lemma codeBlockAt_intro:
  assumes "list_all isLowerAZ letters"
  shows "codeBlockAt (''```'' @ letters @ CHR 0x0A # post)"
proof -
  have "dropWhile isLowerAZ (letters @ CHR 0x0A # post) = CHR 0x0A # post"
    using assms by (induction letters) (auto simp: isLowerAZ_def)
  then show ?thesis by (simp add: codeBlockAt_def)
qed

lemma matchCodeBlock_append:
  assumes "codeBlockAt s"
  shows "matchCodeBlock (pre @ s)"
proof (induction pre)
  case Nil
  from assms have "s \<noteq> []" by (auto simp: codeBlockAt_def)
  then obtain c cs where "s = c # cs" by (cases s) auto
  then show ?case using assms by simp
next
  case (Cons a pre)
  then show ?case by simp
qed

lemma matchCodeBlock_lower:
  assumes "userInput = pre @ ''```'' @ letters @ CHR 0x0A # post"
    and "list_all isAsciiLetter letters"
  shows "matchCodeBlock (toLowerCase userInput)"
proof -
  have l: "list_all isLowerAZ (map toLowerChar letters)"
    using assms(2) by (induction letters) (auto simp: toLowerChar_letter)
  have "toLowerCase userInput =
          map toLowerChar pre @ (''```'' @ map toLowerChar letters @ CHR 0x0A # map toLowerChar post)"
    using assms(1) by (simp add: toLowerCase_def toLowerChar_def)
  then show ?thesis
    using matchCodeBlock_append[OF codeBlockAt_intro[OF l]] by simp
qed

lemma ruleBasedClassification_code:
  assumes "includesJS (toLowerCase userInput) ''debug'' \<or> matchCodeBlock (toLowerCase userInput)"
  shows "ruleBasedClassification userInput context = ''code''"
  unfolding ruleBasedClassification_def Let_def
  by (rule if_P) (use assms in blast)

lemma classifyTask_uninitialized:
  assumes "\<not> classifierInitialized e"
  shows "classifyTask e d userInput userId =
           ruleBasedClassification userInput (getContext e d userId None None False)"
  using assms by (simp add: classifyTask_def classifyTaskTry_def Let_def)

lemma classifyTask_low_confidence:
  assumes "classify e userInput (getContext e d userId None None False) = Inr ml"
    and "\<not> exceedsThreshold (ml_confidence ml) (ML_CONFIDENCE_THRESHOLD e)"
  shows "classifyTask e d userInput userId =
           ruleBasedClassification userInput (getContext e d userId None None False)"
  using assms by (simp add: classifyTask_def classifyTaskTry_def Let_def bindE_def)

lemma ruleBasedClassification_debug_this:
  "ruleBasedClassification ''debug this'' context = ''code''"
  by (rule ruleBasedClassification_code)
     (simp add: toLowerCase_def toLowerChar_def)

lemma ruleBasedClassification_cppBlock:
  "ruleBasedClassification cppBlock context = ''general''"
  by (simp add: ruleBasedClassification_def cppBlock_def toLowerCase_def toLowerChar_def
        codeBlockAt_def isLowerAZ_def Let_def)

lemma codeBlockAt_elim:
  assumes "codeBlockAt s"
  shows "\<exists>letters post. s = ''```'' @ letters @ CHR 0x0A # post \<and> list_all isLowerAZ letters"
proof -
  from assms obtain t where s: "s = ''```'' @ t"
    by (auto simp: codeBlockAt_def prefix_def)
  with assms obtain post where d: "dropWhile isLowerAZ t = CHR 0x0A # post"
    by (auto simp: codeBlockAt_def split: list.splits)
  have "takeWhile isLowerAZ t @ dropWhile isLowerAZ t = t"
    by (rule takeWhile_dropWhile_id)
  then have "s = ''```'' @ takeWhile isLowerAZ t @ CHR 0x0A # post"
    unfolding d s by simp
  moreover have "list_all isLowerAZ (takeWhile isLowerAZ t)"
    unfolding list_all_iff by (auto dest: set_takeWhileD)
  ultimately show ?thesis by blast
qed

lemma matchCodeBlock_elim:
  assumes "matchCodeBlock s"
  shows "\<exists>pre letters post. s = pre @ ''```'' @ letters @ CHR 0x0A # post
           \<and> list_all isLowerAZ letters"
  using assms
proof (induction s)
  case Nil
  then show ?case by simp
next
  case (Cons c cs)
  show ?case
  proof (cases "codeBlockAt (c # cs)")
    case True
    from codeBlockAt_elim[OF this] obtain letters post where
      "c # cs = [] @ ''```'' @ letters @ CHR 0x0A # post" "list_all isLowerAZ letters"
      by auto
    then show ?thesis by blast
  next
    case False
    with Cons.prems have "matchCodeBlock cs" by simp
    from Cons.IH[OF this] obtain pre letters post where
      "cs = pre @ ''```'' @ letters @ CHR 0x0A # post" "list_all isLowerAZ letters"
      by blast
    then have "c # cs = (c # pre) @ ''```'' @ letters @ CHR 0x0A # post
                 \<and> list_all isLowerAZ letters"
      by simp
    then show ?thesis by blast
  qed
qed

lemma matchCodeBlock_iff:
  "matchCodeBlock s \<longleftrightarrow>
     (\<exists>pre letters post. s = pre @ ''```'' @ letters @ CHR 0x0A # post
        \<and> list_all isLowerAZ letters)"
proof
  assume "matchCodeBlock s"
  then show "\<exists>pre letters post. s = pre @ ''```'' @ letters @ CHR 0x0A # post
               \<and> list_all isLowerAZ letters"
    by (rule matchCodeBlock_elim)
next
  assume "\<exists>pre letters post. s = pre @ ''```'' @ letters @ CHR 0x0A # post
            \<and> list_all isLowerAZ letters"
  then obtain pre letters post where
    s: "s = pre @ (''```'' @ letters @ CHR 0x0A # post)" and l: "list_all isLowerAZ letters"
    by auto
  show "matchCodeBlock s"
    unfolding s by (rule matchCodeBlock_append[OF codeBlockAt_intro[OF l]])
qed

lemma if_neq: "a \<noteq> x \<Longrightarrow> b \<noteq> x \<Longrightarrow> (if c then a else b) \<noteq> x"
  by simp

lemma ruleBasedClassification_not_code:
  assumes "\<not> (includesJS (toLowerCase userInput) ''code''
              \<or> includesJS (toLowerCase userInput) ''function''
              \<or> includesJS (toLowerCase userInput) ''programming''
              \<or> includesJS (toLowerCase userInput) ''debug''
              \<or> includesJS (toLowerCase userInput) ''algorithm''
              \<or> matchCodeBlock (toLowerCase userInput))"
  shows "ruleBasedClassification userInput context \<noteq> ''code''"
  unfolding ruleBasedClassification_def Let_def
  by (subst if_not_P[OF assms]) (intro if_neq; simp)

lemma ruleBasedClassification_code_iff:
  "ruleBasedClassification userInput context = ''code'' \<longleftrightarrow>
     (\<exists>kw \<in> set [''code'', ''function'', ''programming'', ''debug'', ''algorithm''].
         sublist kw (toLowerCase userInput))
     \<or> (\<exists>pre letters post.
           toLowerCase userInput = pre @ ''```'' @ letters @ CHR 0x0A # post
           \<and> list_all isLowerAZ letters)"
proof -
  let ?c = "includesJS (toLowerCase userInput) ''code''
              \<or> includesJS (toLowerCase userInput) ''function''
              \<or> includesJS (toLowerCase userInput) ''programming''
              \<or> includesJS (toLowerCase userInput) ''debug''
              \<or> includesJS (toLowerCase userInput) ''algorithm''
              \<or> matchCodeBlock (toLowerCase userInput)"
  have "ruleBasedClassification userInput context = ''code'' \<longleftrightarrow> ?c"
  proof
    assume "ruleBasedClassification userInput context = ''code''"
    then show ?c using ruleBasedClassification_not_code by blast
  next
    assume ?c
    then show "ruleBasedClassification userInput context = ''code''"
      unfolding ruleBasedClassification_def Let_def by (rule if_P)
  qed
  also have "?c \<longleftrightarrow>
     (\<exists>kw \<in> set [''code'', ''function'', ''programming'', ''debug'', ''algorithm''].
         sublist kw (toLowerCase userInput))
     \<or> (\<exists>pre letters post.
           toLowerCase userInput = pre @ ''```'' @ letters @ CHR 0x0A # post
           \<and> list_all isLowerAZ letters)"
    unfolding includesJS_iff_sublist matchCodeBlock_iff by simp
  finally show ?thesis .
qed

text \<open>
  C5. The claim: every input that contains \<open>debug\<close> or a fenced code block marker is
  classified as \<open>code\<close> when the learned classifier is uninitialized or reports a
  confidence not above the threshold. The code's test for the marker is the regular
  expression \<open>/```[a-z]*\n/\<close> on the lower-cased input: the block \<open>cppBlock\<close>, fenced and
  tagged \<open>c++\<close>, is not matched and is classified \<open>general\<close>.
\<close>

theorem classifyTask_fenced_block_counterexample:
  "sublist ''```'' cppBlock
   \<and> \<not> classifierInitialized healthyEnv
   \<and> classifyTask healthyEnv [] cppBlock ''u1'' = ''general''"
proof -
  have "sublist ''```'' (''```'' @ (''c++'' @ [CHR 0x0A] @ ''int x;'' @ [CHR 0x0A] @ ''```''))"
    by (rule sublist_append_rightI)
  then have "sublist ''```'' cppBlock" by (simp add: cppBlock_def)
  moreover have u: "\<not> classifierInitialized healthyEnv" by (simp add: healthyEnv_def)
  ultimately show ?thesis
    by (simp add: classifyTask_uninitialized[OF u] ruleBasedClassification_cppBlock)
qed

text \<open>
  C5, amended. When the learned classifier is uninitialized or returns a confidence that
  does not exceed the threshold: every input that contains \<open>debug\<close>, or three backticks
  followed by zero or more ASCII letters and a line feed, is classified as \<open>code\<close>; and
  an input is classified as \<open>code\<close> exactly if its lower-cased form contains one of
  \<open>code\<close>, \<open>function\<close>, \<open>programming\<close>, \<open>debug\<close>, \<open>algorithm\<close>, or three backticks followed
  by zero or more letters \<open>a\<close> to \<open>z\<close> and a line feed.
\<close>

theorem classifyTask_code_when_classifier_defers:
  assumes "\<not> classifierInitialized e
         \<or> (\<exists>ml. classify e userInput (getContext e d userId None None False) = Inr ml
               \<and> \<not> exceedsThreshold (ml_confidence ml) (ML_CONFIDENCE_THRESHOLD e))"
  shows "(sublist ''debug'' userInput
           \<or> (\<exists>pre letters post. userInput = pre @ ''```'' @ letters @ CHR 0x0A # post
                 \<and> list_all isAsciiLetter letters)
          \<longrightarrow> classifyTask e d userInput userId = ''code'')
       \<and> (classifyTask e d userInput userId = ''code'' \<longleftrightarrow>
            (\<exists>kw \<in> set [''code'', ''function'', ''programming'', ''debug'', ''algorithm''].
                sublist kw (toLowerCase userInput))
            \<or> (\<exists>pre letters post.
                  toLowerCase userInput = pre @ ''```'' @ letters @ CHR 0x0A # post
                  \<and> list_all isLowerAZ letters))"
proof -
  from assms have c: "classifyTask e d userInput userId =
      ruleBasedClassification userInput (getContext e d userId None None False)"
    using classifyTask_uninitialized classifyTask_low_confidence by blast
  have "classifyTask e d userInput userId = ''code''"
    if "sublist ''debug'' userInput
        \<or> (\<exists>pre letters post. userInput = pre @ ''```'' @ letters @ CHR 0x0A # post
              \<and> list_all isAsciiLetter letters)"
  proof -
    have "includesJS (toLowerCase userInput) ''debug'' \<or> matchCodeBlock (toLowerCase userInput)"
      using that includes_debug_lower matchCodeBlock_lower by blast
    then have "ruleBasedClassification userInput (getContext e d userId None None False)
                 = ''code''"
      by (rule ruleBasedClassification_code)
    then show ?thesis using c by simp
  qed
  moreover have "classifyTask e d userInput userId = ''code'' \<longleftrightarrow>
            (\<exists>kw \<in> set [''code'', ''function'', ''programming'', ''debug'', ''algorithm''].
                sublist kw (toLowerCase userInput))
            \<or> (\<exists>pre letters post.
                  toLowerCase userInput = pre @ ''```'' @ letters @ CHR 0x0A # post
                  \<and> list_all isLowerAZ letters)"
    unfolding c by (rule ruleBasedClassification_code_iff)
  ultimately show ?thesis by blast
qed

theorem classifyTask_code_when_classifier_defers_witness:
  "classifyTask healthyEnv [] ''please debug this'' ''u1'' = ''code''
   \<and> classifyTask lowConfidenceEnv [] jsBlock ''u1'' = ''code''
   \<and> classifyTask healthyEnv [] cppBlock ''u1'' \<noteq> ''code''
   \<and> \<not> (\<exists>pre letters post.
            toLowerCase cppBlock = pre @ ''```'' @ letters @ CHR 0x0A # post
            \<and> list_all isLowerAZ letters)"
proof -
  have a1: "sublist ''debug'' ''please debug this''
           \<or> (\<exists>pre letters post. ''please debug this'' = pre @ ''```'' @ letters @ CHR 0x0A # post
                 \<and> list_all isAsciiLetter letters)"
  proof -
    have "sublist ''debug'' (''please '' @ ''debug'' @ '' this'')" by (rule sublist_appendI)
    then show ?thesis by simp
  qed
  have a2: "\<not> classifierInitialized healthyEnv
         \<or> (\<exists>ml. classify healthyEnv userInput
                     (getContext healthyEnv [] ''u1'' None None False) = Inr ml
               \<and> \<not> exceedsThreshold (ml_confidence ml) (ML_CONFIDENCE_THRESHOLD healthyEnv))"
    for userInput
    by (simp add: healthyEnv_def)
  have b1: "sublist ''debug'' jsBlock
           \<or> (\<exists>pre letters post. jsBlock = pre @ ''```'' @ letters @ CHR 0x0A # post
                 \<and> list_all isAsciiLetter letters)"
  proof -
    have "jsBlock = [] @ ''```'' @ ''JS'' @ CHR 0x0A # (''let x;'' @ [CHR 0x0A] @ ''```'')"
      by (simp add: jsBlock_def)
    moreover have "list_all isAsciiLetter ''JS''" by (simp add: isAsciiLetter_def)
    ultimately show ?thesis by blast
  qed
  have b2: "\<not> classifierInitialized lowConfidenceEnv
         \<or> (\<exists>ml. classify lowConfidenceEnv jsBlock
                     (getContext lowConfidenceEnv [] ''u1'' None None False) = Inr ml
               \<and> \<not> exceedsThreshold (ml_confidence ml) (ML_CONFIDENCE_THRESHOLD lowConfidenceEnv))"
    by (simp add: lowConfidenceEnv_def healthyEnv_def exceedsThreshold_def)
  have u: "\<not> classifierInitialized healthyEnv" by (simp add: healthyEnv_def)
  have g: "classifyTask healthyEnv [] cppBlock ''u1'' \<noteq> ''code''"
    by (simp add: classifyTask_uninitialized[OF u] ruleBasedClassification_cppBlock)
  show ?thesis
    using classifyTask_code_when_classifier_defers [OF a2 [of "''please debug this''"]] a1
          classifyTask_code_when_classifier_defers [OF b2] b1
          classifyTask_code_when_classifier_defers [OF a2 [of cppBlock]] g
    by blast
qed

text \<open>
  C7. The claim: a failure of the learned classifier is treated as low confidence and
  falls through to the rule-based classifier. In the code the call to the classifier is
  inside the one \<open>try\<close> block of \<open>classifyTask\<close>, whose \<open>catch\<close> returns \<open>general\<close>: with a
  classifier that throws, the input \<open>debug this\<close>, which the rules classify as \<open>code\<close>, is
  classified \<open>general\<close>.
\<close>

theorem classifyTask_classifier_failure_counterexample:
  "classifierInitialized classifierThrowsEnv
   \<and> classify classifierThrowsEnv ''debug this''
        (getContext classifierThrowsEnv [] ''u1'' None None False) = Inl (Error ''model unavailable'')
   \<and> ruleBasedClassification ''debug this''
        (getContext classifierThrowsEnv [] ''u1'' None None False) = ''code''
   \<and> classifyTask classifierThrowsEnv [] ''debug this'' ''u1'' = ''general''"
  by (simp add: ruleBasedClassification_debug_this)
     (simp add: classifierThrowsEnv_def healthyEnv_def classifyTask_def classifyTaskTry_def
        bindE_def Let_def)

text \<open>
  C7, amended. \<open>classifyTask\<close> never raises: an exception of the learned classifier is
  caught and \<open>classifyTask\<close> returns \<open>general\<close> at once, without consulting the rule-based
  classifier.
\<close>

theorem classifyTask_failure_gives_general:
  assumes "classifierInitialized e"
    and "classify e userInput (getContext e d userId None None False) = Inl err"
  shows "classifyTaskTry e d userInput userId = Inl err
       \<and> classifyTask e d userInput userId = ''general''"
  using assms by (simp add: classifyTask_def classifyTaskTry_def bindE_def Let_def)

theorem classifyTask_failure_gives_general_witness:
  "classifyTaskTry classifierThrowsEnv [] ''debug this'' ''u1'' = Inl (Error ''model unavailable'')
   \<and> classifyTask classifierThrowsEnv [] ''debug this'' ''u1'' = ''general''"
proof -
  have h1: "classifierInitialized classifierThrowsEnv"
    by (simp add: classifierThrowsEnv_def)
  have h2: "classify classifierThrowsEnv ''debug this''
              (getContext classifierThrowsEnv [] ''u1'' None None False)
            = Inl (Error ''model unavailable'')"
    by (simp add: classifierThrowsEnv_def)
  show ?thesis
    using classifyTask_failure_gives_general [OF h1 h2] by simp
qed

section \<open>Facts about one pass through \<open>processRequest\<close>\<close>

lemma db_initialize: "db (initialize e s) = db s"
  by (simp add: initialize_def split: option.splits)

lemma calls_initialize: "calls (initialize e s) = calls s"
  by (simp add: initialize_def split: option.splits)

lemma getPlatformForTask_cong:
  assumes "o_preferredPlatform opts' = o_preferredPlatform opts"
    and "o_optimizeCost opts' = o_optimizeCost opts"
    and "o_isPremiumUser opts' = o_isPremiumUser opts"
  shows "getPlatformForTask taskType opts' = getPlatformForTask taskType opts"
  using assms by (simp add: getPlatformForTask_def Let_def split: prod.splits)

lemma routeRequest_cong:
  assumes "o_preferredPlatform opts' = o_preferredPlatform opts"
    and "o_optimizeCost opts' = o_optimizeCost opts"
    and "o_isPremiumUser opts' = o_isPremiumUser opts"
  shows "routeRequest e d userInput userId opts' = routeRequest e d userInput userId opts"
  using getPlatformForTask_cong[OF assms] by (simp add: routeRequest_def Let_def)

lemma routeRequest_ignores_fallback_options:
  "routeRequest e d userInput userId
     (opts\<lparr>o_isFallback := a, o_isFallbackSecondary := b, o_overridePlatform := c\<rparr>)
   = routeRequest e d userInput userId opts"
  by (rule routeRequest_cong) simp_all

lemma routeRequest_ignores_override:
  "routeRequest e d userInput userId
     (opts\<lparr>o_overridePlatform := c, o_enableFallback := b\<rparr>)
   = routeRequest e d userInput userId opts"
  by (rule routeRequest_cong) simp_all

lemma enhanceMessages_Messages:
  "\<exists>ms'. enhanceMessages e (Messages ms) tp = Inr (Messages ms')"
  by (simp add: enhanceMessages_def Let_def)

lemma formatContextForPlatform_Messages:
  "platform \<noteq> ''gemini'' \<Longrightarrow> \<exists>ms. formatContextForPlatform context platform = Messages ms"
  by (simp add: formatContextForPlatform_def formatForChatGPT_def formatForPerplexity_def
        formatForCopilot_def formatForDeepSeek_def formatForGrok3_def formatForVertix_def
        formatForLocal_def formatMessages_def)

lemma enhance_unknown_platform:
  assumes "platform \<notin> set providerSet"
  shows "\<exists>p. enhancePromptWithThinking e (formatContextForPlatform context platform) tp platform
             = Inr p"
proof -
  from assms have "platform \<noteq> ''gemini''" by (auto simp: providerSet_def)
  then obtain ms where ms: "formatContextForPlatform context platform = Messages ms"
    using formatContextForPlatform_Messages by blast
  from assms have "enhancePromptWithThinking e (Messages ms) tp platform
                     = enhanceMessages e (Messages ms) tp"
    by (simp add: enhancePromptWithThinking_def providerSet_def enhanceChatGPTPrompt_def)
  then show ?thesis using ms enhanceMessages_Messages[of e ms tp] by auto
qed

lemma enhance_chat_platform:
  assumes "platform \<in> {''chatgpt'', ''perplexity'', ''copilot'', ''deepseek'', ''grok3''}"
  shows "\<exists>p. enhancePromptWithThinking e (formatContextForPlatform context platform) tp platform
             = Inr p"
proof -
  from assms have "platform \<noteq> ''gemini''" by auto
  then obtain ms where ms: "formatContextForPlatform context platform = Messages ms"
    using formatContextForPlatform_Messages by blast
  from assms have "enhancePromptWithThinking e (Messages ms) tp platform
                     = enhanceMessages e (Messages ms) tp"
    by (auto simp add: enhancePromptWithThinking_def enhanceChatGPTPrompt_def
          enhancePerplexityPrompt_def enhanceCopilotPrompt_def enhanceDeepSeekPrompt_def
          enhanceGrok3Prompt_def)
  then show ?thesis using ms enhanceMessages_Messages[of e ms tp] by auto
qed

lemma lookupMember_Inherited:
  assumes "k \<in> set objectPrototypeKeys" and "set (map fst table) \<inter> set objectPrototypeKeys = {}"
  shows "lookupMember table k = Inherited"
proof -
  from assms have "k \<notin> fst ` set table" by auto
  then have "map_of table k = None" by (simp add: map_of_eq_None_iff)
  with assms(1) show ?thesis by (simp add: lookupMember_def)
qed

lemma lookupMember_not_Inherited:
  assumes "k \<notin> set objectPrototypeKeys"
  shows "lookupMember table k \<noteq> Inherited"
  using assms by (simp add: lookupMember_def split: option.splits)

lemma generateThinkingPrompts_inherited:
  assumes "taskType \<in> set objectPrototypeKeys"
  shows "generateThinkingPrompts taskType = Inl TypeError"
proof -
  have "lookupMember taskTypeReasoningMap taskType = Inherited"
    using assms by (rule lookupMember_Inherited)
       (simp add: taskTypeReasoningMap_def objectPrototypeKeys_def)
  then show ?thesis by (simp add: generateThinkingPrompts_def)
qed

lemma generateThinkingPrompts_not_inherited:
  assumes "taskType \<notin> set objectPrototypeKeys"
  shows "\<exists>thinkingPrompts. generateThinkingPrompts taskType = Inr thinkingPrompts"
  using lookupMember_not_Inherited[OF assms, of taskTypeReasoningMap]
  by (cases "lookupMember taskTypeReasoningMap taskType")
     (simp_all add: generateThinkingPrompts_def)

lemma lookupMember_platformModules:
  "lookupMember platformModules k =
     (if k \<in> set providerSet then Own k
      else if k \<in> set objectPrototypeKeys then Inherited else Absent)"
proof (cases "k \<in> set providerSet")
  case True
  then have "map_of platformModules k = Some k"
    unfolding platformModules_def by (simp add: map_of_map_restrict)
  then show ?thesis using True by (simp add: lookupMember_def)
next
  case False
  then have "map_of platformModules k = None"
    unfolding platformModules_def by (simp add: map_of_map_restrict)
  then show ?thesis using False by (simp add: lookupMember_def)
qed

lemma processRequestTry_unknown_platform:
  assumes "rd_platform (routeRequest e (db s0) userInput userId opts) \<notin> Some ` set providerSet"
  shows "processRequestTry e userInput userId opts s0 =
           (Inl (if rd_taskType (routeRequest e (db s0) userInput userId opts)
                       \<in> set objectPrototypeKeys
                     \<or> (platformModulesLoad e
                        \<and> keyOf (rd_platform (routeRequest e (db s0) userInput userId opts))
                            \<in> set objectPrototypeKeys)
                 then TypeError
                 else Error (''Platform module not found for '' @
                        keyOf (rd_platform (routeRequest e (db s0) userInput userId opts)))),
            if \<not> initialized s0 then initialize e s0 else s0)"
proof -
  let ?s = "if \<not> initialized s0 then initialize e s0 else s0"
  have d: "db ?s = db s0" by (simp add: db_initialize)
  let ?ri = "routeRequest e (db s0) userInput userId opts"
  show ?thesis
  proof (cases "rd_taskType ?ri \<in> set objectPrototypeKeys")
    case True
    then have g: "generateThinkingPrompts (rd_taskType ?ri) = Inl TypeError"
      by (rule generateThinkingPrompts_inherited)
    show ?thesis
      unfolding processRequestTry_def Let_def d
      by (simp only: g sum.case) (simp add: True)
  next
    case False
    then obtain tp where g: "generateThinkingPrompts (rd_taskType ?ri) = Inr tp"
      using generateThinkingPrompts_not_inherited by blast
    have k: "keyOf (rd_platform ?ri) \<notin> set providerSet"
    proof (cases "rd_platform ?ri")
      case None
      then show ?thesis by (simp add: keyOf_def providerSet_def)
    next
      case (Some p)
      with assms show ?thesis by (auto simp add: keyOf_def)
    qed
    obtain p where p: "enhancePromptWithThinking e
          (formatContextForPlatform
             (getContext e (db s0) userId (rd_platform ?ri) (Some userInput)
                (o_enableSemanticSearch opts))
             (keyOf (rd_platform ?ri)))
          tp (keyOf (rd_platform ?ri)) = Inr p"
      using enhance_unknown_platform[OF k] by blast
    have m: "getPlatformModule e (rd_platform ?ri) =
               (if platformModulesLoad e \<and> keyOf (rd_platform ?ri) \<in> set objectPrototypeKeys
                then Inherited else Absent)"
      using k by (simp add: getPlatformModule_def lookupMember_platformModules)
    show ?thesis
    proof (cases "platformModulesLoad e \<and> keyOf (rd_platform ?ri) \<in> set objectPrototypeKeys")
      case True
      with m have m': "getPlatformModule e (rd_platform ?ri) = Inherited" by simp
      show ?thesis
        unfolding processRequestTry_def Let_def d
        by (simp only: g p m' sum.case member.case) (simp add: True)
    next
      case nk: False
      with m have m': "getPlatformModule e (rd_platform ?ri) = Absent" by simp
      show ?thesis
        unfolding processRequestTry_def Let_def d
        by (simp only: g p m' sum.case member.case) (use False nk in simp)
    qed
  qed
qed

lemma processRequestTry_chat_platform:
  assumes "rd_platform (routeRequest e (db s0) userInput userId opts) = Some platform"
    and "platform \<in> {''chatgpt'', ''perplexity'', ''copilot'', ''deepseek'', ''grok3''}"
    and "rd_taskType (routeRequest e (db s0) userInput userId opts) \<notin> set objectPrototypeKeys"
    and "platformModulesLoad e"
  shows "\<exists>enhancedPrompt. processRequestTry e userInput userId opts s0 =
     (let s = (if \<not> initialized s0 then initialize e s0 else s0);
          routingInfo = routeRequest e (db s0) userInput userId opts;
          s1 = s\<lparr>calls := calls s0 @ [platform]\<rparr>
      in case generateResponse e platform (length (calls s0)) enhancedPrompt of
           Inl err \<Rightarrow> (Inl err, s1)
         | Inr platformResponse \<Rightarrow>
             (Inr ((processResponse e platformResponse routingInfo)
                     \<lparr>r_routingInfo := Some routingInfo\<rparr>),
              s1\<lparr>db := saveContext e (db s0) userId userInput
                           (r_content (processResponse e platformResponse routingInfo))
                           (rd_platform routingInfo) (rd_taskType routingInfo)\<rparr>))"
proof -
  let ?s = "if \<not> initialized s0 then initialize e s0 else s0"
  have d: "db ?s = db s0" by (simp add: db_initialize)
  have c: "calls ?s = calls s0" by (simp add: calls_initialize)
  let ?ri = "routeRequest e (db s0) userInput userId opts"
  obtain tp where g: "generateThinkingPrompts (rd_taskType ?ri) = Inr tp"
    using generateThinkingPrompts_not_inherited[OF assms(3)] by blast
  have k: "keyOf (rd_platform ?ri) = platform" by (simp add: assms(1) keyOf_def)
  obtain p where p: "enhancePromptWithThinking e
        (formatContextForPlatform
           (getContext e (db s0) userId (rd_platform ?ri) (Some userInput)
              (o_enableSemanticSearch opts))
           platform)
        tp platform = Inr p"
    using enhance_chat_platform[OF assms(2)] by blast
  have "platform \<in> set providerSet" using assms(2) by (auto simp add: providerSet_def)
  then have m: "getPlatformModule e (rd_platform ?ri) = Own platform"
    using assms(4) k by (simp add: getPlatformModule_def lookupMember_platformModules)
  have "processRequestTry e userInput userId opts s0 =
     (let s = (if \<not> initialized s0 then initialize e s0 else s0);
          routingInfo = routeRequest e (db s0) userInput userId opts;
          s1 = s\<lparr>calls := calls s0 @ [platform]\<rparr>
      in case generateResponse e platform (length (calls s0)) p of
           Inl err \<Rightarrow> (Inl err, s1)
         | Inr platformResponse \<Rightarrow>
             (Inr ((processResponse e platformResponse routingInfo)
                     \<lparr>r_routingInfo := Some routingInfo\<rparr>),
              s1\<lparr>db := saveContext e (db s0) userId userInput
                           (r_content (processResponse e platformResponse routingInfo))
                           (rd_platform routingInfo) (rd_taskType routingInfo)\<rparr>))"
    unfolding processRequestTry_def Let_def d c k
    by (simp only: g p m sum.case member.case)
       (simp add: db_initialize calls_initialize split: sum.splits)
  then show ?thesis by blast
qed

section \<open>The fallback chain\<close>

lemma ruleBasedClassification_hello: "ruleBasedClassification ''hello'' context = ''general''"
  by (simp add: ruleBasedClassification_def toLowerCase_def toLowerChar_def codeBlockAt_def
        Let_def)

lemma routeRequest_hello:
  assumes "\<not> classifierInitialized e" and "o_preferredPlatform opts = None"
    and "\<not> o_optimizeCost opts"
  shows "routeRequest e d ''hello'' ''u1'' opts =
           \<lparr>rd_userId = ''u1'', rd_userInput = ''hello'', rd_taskType = ''general'',
            rd_platform = Some ''chatgpt'', rd_secondary = Some ''deepseek'',
            rd_fallback = Some ''local'', rd_isErrorFallback = False\<rparr>"
  using assms
  by (simp add: routeRequest_def classifyTask_uninitialized ruleBasedClassification_hello
        getPlatformForTask_def lookupMember_def platformMapping_def)

lemma chatgptDownEnv_facts:
  "\<not> classifierInitialized chatgptDownEnv" "platformModulesLoad chatgptDownEnv"
  "vectorDbInitialize chatgptDownEnv = None"
  "generateResponse chatgptDownEnv ''chatgpt'' n enhancedPrompt =
     Inl (Error ''ChatGPT API error: Request failed with status code 401'')"
  "generateResponse chatgptDownEnv ''deepseek'' n enhancedPrompt = Inr okResponse"
  "generateResponse chatgptDownEnv ''local'' n enhancedPrompt = Inr okResponse"
  by (simp_all add: chatgptDownEnv_def healthyEnv_def)

lemma healthyEnv_facts:
  "\<not> classifierInitialized healthyEnv" "platformModulesLoad healthyEnv"
  "vectorDbInitialize healthyEnv = None"
  "generateResponse healthyEnv platform n enhancedPrompt = Inr okResponse"
  "saveConversationTurn healthyEnv saved t = None"
  by (simp_all add: healthyEnv_def)

lemma processRequestTry_chatgpt_down:
  assumes "o_preferredPlatform opts = None" and "\<not> o_optimizeCost opts"
  shows "processRequestTry chatgptDownEnv ''hello'' ''u1'' opts s0 =
           (Inl (Error ''ChatGPT API error: Request failed with status code 401''),
            s0\<lparr>calls := calls s0 @ [''chatgpt''], initialized := True\<rparr>)"
proof -
  note r = routeRequest_hello[OF chatgptDownEnv_facts(1) assms]
  have p: "rd_platform (routeRequest chatgptDownEnv (db s0) ''hello'' ''u1'' opts) = Some ''chatgpt''"
    by (simp add: r)
  have c: "''chatgpt'' \<in> {''chatgpt'', ''perplexity'', ''copilot'', ''deepseek'', ''grok3''}"
    by simp
  have t: "rd_taskType (routeRequest chatgptDownEnv (db s0) ''hello'' ''u1'' opts)
             \<notin> set objectPrototypeKeys"
    by (simp add: r objectPrototypeKeys_def)
  from processRequestTry_chat_platform[OF p c t chatgptDownEnv_facts(2)]
  obtain enhancedPrompt where
    "processRequestTry chatgptDownEnv ''hello'' ''u1'' opts s0 =
     (let s = (if \<not> initialized s0 then initialize chatgptDownEnv s0 else s0);
          routingInfo = routeRequest chatgptDownEnv (db s0) ''hello'' ''u1'' opts;
          s1 = s\<lparr>calls := calls s0 @ [''chatgpt'']\<rparr>
      in case generateResponse chatgptDownEnv ''chatgpt'' (length (calls s0))
                enhancedPrompt of
           Inl err \<Rightarrow> (Inl err, s1)
         | Inr platformResponse \<Rightarrow>
             (Inr ((processResponse chatgptDownEnv platformResponse routingInfo)
                     \<lparr>r_routingInfo := Some routingInfo\<rparr>),
              s1\<lparr>db := saveContext chatgptDownEnv (db s0) ''u1'' ''hello''
                           (r_content (processResponse chatgptDownEnv platformResponse routingInfo))
                           (rd_platform routingInfo) (rd_taskType routingInfo)\<rparr>))"
    by blast
  then show ?thesis
    by (simp add: r Let_def chatgptDownEnv_facts initialize_def)
qed

lemma processRequest_chatgpt_down_retry:
  assumes "o_isFallback opts" and "o_preferredPlatform opts = None" and "\<not> o_optimizeCost opts"
  shows "processRequest chatgptDownEnv ''hello'' ''u1'' opts s0 =
           (errorResponse ''I encountered an issue processing your request. Please try again.''
              (Error ''ChatGPT API error: Request failed with status code 401'') ''u1'',
            s0\<lparr>calls := calls s0 @ [''chatgpt''], initialized := True\<rparr>)"
  by (subst processRequest.simps)
     (simp add: processRequestTry_chatgpt_down[OF assms(2,3)] assms(1))

lemma processRequest_chatgpt_down_first:
  assumes "o_enableFallback opts \<noteq> Some False" and "\<not> o_isFallback opts"
    and "o_preferredPlatform opts = None" and "\<not> o_optimizeCost opts"
  shows "processRequest chatgptDownEnv ''hello'' ''u1'' opts s0 =
           (errorResponse ''I encountered an issue processing your request. Please try again.''
              (Error ''ChatGPT API error: Request failed with status code 401'') ''u1'',
            s0\<lparr>calls := calls s0 @ [''chatgpt'', ''chatgpt''], initialized := True\<rparr>)"
proof -
  let ?err = "Error ''ChatGPT API error: Request failed with status code 401''"
  let ?s1 = "s0\<lparr>calls := calls s0 @ [''chatgpt''], initialized := True\<rparr>"
  have "processRequest chatgptDownEnv ''hello'' ''u1'' opts s0 =
          handleFallback chatgptDownEnv ''hello'' ''u1'' ?err opts ?s1"
    by (subst processRequest.simps)
       (simp add: processRequestTry_chatgpt_down[OF assms(3,4)] assms(1,2))
  also have "\<dots> = (errorResponse
                      ''I encountered an issue processing your request. Please try again.''
                      ?err ''u1'',
                    ?s1\<lparr>calls := calls ?s1 @ [''chatgpt''], initialized := True\<rparr>)"
    unfolding handleFallback.simps Let_def
    by (rule processRequest_chatgpt_down_retry) (simp_all add: assms)
  finally show ?thesis by simp
qed

lemma processRequest_chatgpt_down:
  "processRequest chatgptDownEnv ''hello'' ''u1'' defaultOptions initialState =
     (errorResponse ''I encountered an issue processing your request. Please try again.''
        (Error ''ChatGPT API error: Request failed with status code 401'') ''u1'',
      \<lparr>calls = [''chatgpt'', ''chatgpt''], db = [], initialized = True\<rparr>)"
proof -
  have "processRequest chatgptDownEnv ''hello'' ''u1'' defaultOptions initialState =
     (errorResponse ''I encountered an issue processing your request. Please try again.''
        (Error ''ChatGPT API error: Request failed with status code 401'') ''u1'',
      initialState\<lparr>calls := calls initialState @ [''chatgpt'', ''chatgpt''],
                   initialized := True\<rparr>)"
    by (rule processRequest_chatgpt_down_first) (simp_all add: defaultOptions_def)
  then show ?thesis by (simp add: initialState_def)
qed


lemma processRequest_chatgpt_down_no_fallback:
  assumes "o_enableFallback opts = Some False"
    and "o_preferredPlatform opts = None" and "\<not> o_optimizeCost opts"
  shows "processRequest chatgptDownEnv ''hello'' ''u1'' opts s0 =
           (errorResponse ''I encountered an issue processing your request. Please try again.''
              (Error ''ChatGPT API error: Request failed with status code 401'') ''u1'',
            s0\<lparr>calls := calls s0 @ [''chatgpt''], initialized := True\<rparr>)"
  by (subst processRequest.simps)
     (simp add: processRequestTry_chatgpt_down[OF assms(2,3)] assms(1))

lemma processResponse_ok:
  assumes "rd_platform routingInfo = Some ''chatgpt''"
  shows "processResponse healthyEnv okResponse routingInfo =
           \<lparr>r_content = JStr ''ok'', r_formattedResponse = JStr ''ok'', r_error = None,
            r_originalError = None, r_platform = Some ''chatgpt'',
            r_taskType = Some (rd_taskType routingInfo),
            r_userId = Some (rd_userId routingInfo), r_routingInfo = None, r_sources = []\<rparr>"
  using assms
  by (simp add: processResponse_def processResponseTry_def extractContent_def keyOf_def
        extractChatGPTContent_def nonEmptyArrayLike_def greaterThanZero_def toNumberJS_def
        okResponse_def bindE_def healthyEnv_def)

lemma processRequestTry_healthy:
  assumes "o_preferredPlatform opts = None" and "\<not> o_optimizeCost opts"
  shows "processRequestTry healthyEnv ''hello'' ''u1'' opts s0 =
           (Inr \<lparr>r_content = JStr ''ok'', r_formattedResponse = JStr ''ok'', r_error = None,
                 r_originalError = None, r_platform = Some ''chatgpt'',
                 r_taskType = Some ''general'', r_userId = Some ''u1'',
                 r_routingInfo = Some (routeRequest healthyEnv (db s0) ''hello'' ''u1'' opts),
                 r_sources = []\<rparr>,
            s0\<lparr>calls := calls s0 @ [''chatgpt''],
                db := db s0 @ [\<lparr>sv_userId = ''u1'', sv_userInput = ''hello'',
                                 sv_aiResponse = JStr ''ok'', sv_platform = ''chatgpt'',
                                 sv_taskType = ''general''\<rparr>],
                initialized := True\<rparr>)"
proof -
  note r = routeRequest_hello[OF healthyEnv_facts(1) assms]
  have p: "rd_platform (routeRequest healthyEnv (db s0) ''hello'' ''u1'' opts) = Some ''chatgpt''"
    by (simp add: r)
  have c: "''chatgpt'' \<in> {''chatgpt'', ''perplexity'', ''copilot'', ''deepseek'', ''grok3''}"
    by simp
  have t: "rd_taskType (routeRequest healthyEnv (db s0) ''hello'' ''u1'' opts)
             \<notin> set objectPrototypeKeys"
    by (simp add: r objectPrototypeKeys_def)
  from processRequestTry_chat_platform[OF p c t healthyEnv_facts(2)]
  obtain enhancedPrompt where
    "processRequestTry healthyEnv ''hello'' ''u1'' opts s0 =
     (let s = (if \<not> initialized s0 then initialize healthyEnv s0 else s0);
          routingInfo = routeRequest healthyEnv (db s0) ''hello'' ''u1'' opts;
          s1 = s\<lparr>calls := calls s0 @ [''chatgpt'']\<rparr>
      in case generateResponse healthyEnv ''chatgpt'' (length (calls s0))
                enhancedPrompt of
           Inl err \<Rightarrow> (Inl err, s1)
         | Inr platformResponse \<Rightarrow>
             (Inr ((processResponse healthyEnv platformResponse routingInfo)
                     \<lparr>r_routingInfo := Some routingInfo\<rparr>),
              s1\<lparr>db := saveContext healthyEnv (db s0) ''u1'' ''hello''
                           (r_content (processResponse healthyEnv platformResponse routingInfo))
                           (rd_platform routingInfo) (rd_taskType routingInfo)\<rparr>))"
    by blast
  then show ?thesis
    by (simp add: Let_def healthyEnv_facts processResponse_ok r initialize_def saveContext_def)
qed

lemma processRequest_healthy:
  assumes "o_preferredPlatform opts = None" and "\<not> o_optimizeCost opts"
  shows "processRequest healthyEnv ''hello'' ''u1'' opts s0 =
           (\<lparr>r_content = JStr ''ok'', r_formattedResponse = JStr ''ok'', r_error = None,
             r_originalError = None, r_platform = Some ''chatgpt'',
             r_taskType = Some ''general'', r_userId = Some ''u1'',
             r_routingInfo = Some (routeRequest healthyEnv (db s0) ''hello'' ''u1'' opts),
             r_sources = []\<rparr>,
            s0\<lparr>calls := calls s0 @ [''chatgpt''],
                db := db s0 @ [\<lparr>sv_userId = ''u1'', sv_userInput = ''hello'',
                                 sv_aiResponse = JStr ''ok'', sv_platform = ''chatgpt'',
                                 sv_taskType = ''general''\<rparr>],
                initialized := True\<rparr>)"
  by (subst processRequest.simps) (simp add: processRequestTry_healthy[OF assms])

lemma multi_healthy:
  "calls (snd (processMultiPlatformRequest healthyEnv ''hello'' ''u1''
                 [''gemini'', ''perplexity''] defaultOptions initialState))
     = [''chatgpt'', ''chatgpt'']
   \<and> r_sources (fst (processMultiPlatformRequest healthyEnv ''hello'' ''u1''
                 [''gemini'', ''perplexity''] defaultOptions initialState))
     = [(Some ''chatgpt'', Some ''general''), (Some ''chatgpt'', Some ''general'')]"
  by (simp add: processMultiPlatformRequest_def Let_def processRequest_healthy
        defaultOptions_def initialState_def initialize_def healthyEnv_facts
        mergeResponses_def mergeResponsesTry_def bindE_def)
     (simp add: healthyEnv_def)

lemma multi_chatgpt_down:
  "calls (snd (processMultiPlatformRequest chatgptDownEnv ''hello'' ''u1''
                 [''gemini'', ''perplexity''] defaultOptions initialState))
     = [''chatgpt'', ''chatgpt'']
   \<and> r_sources (fst (processMultiPlatformRequest chatgptDownEnv ''hello'' ''u1''
                 [''gemini'', ''perplexity''] defaultOptions initialState))
     = [(None, None), (None, None)]
   \<and> r_error (fst (processMultiPlatformRequest chatgptDownEnv ''hello'' ''u1''
                 [''gemini'', ''perplexity''] defaultOptions initialState)) = None
   \<and> r_platform (fst (processMultiPlatformRequest chatgptDownEnv ''hello'' ''u1''
                 [''gemini'', ''perplexity''] defaultOptions initialState)) = Some ''merged''
   \<and> r_content (fst (processMultiPlatformRequest chatgptDownEnv ''hello'' ''u1''
                 [''gemini'', ''perplexity''] defaultOptions initialState)) = JStr ''merged''"
  by (simp add: processMultiPlatformRequest_def Let_def processRequest_chatgpt_down_no_fallback
        defaultOptions_def initialState_def initialize_def chatgptDownEnv_facts
        mergeResponses_def mergeResponsesTry_def bindE_def errorResponse_def)
     (simp add: chatgptDownEnv_def healthyEnv_def)


lemma processRequestTry_calls:
  "calls (snd (processRequestTry e userInput userId opts s0)) = calls s0
   \<or> (\<exists>platform. calls (snd (processRequestTry e userInput userId opts s0))
                    = calls s0 @ [platform])"
  by (auto simp add: processRequestTry_def Let_def calls_initialize db_initialize
        split: sum.splits member.splits)

lemma processRequest_at_most_two_calls:
  "\<exists>invoked. calls (snd (processRequest e userInput userId opts s)) = calls s @ invoked
             \<and> length invoked \<le> 2"
proof -
  have one: "\<exists>invoked. calls (snd (processRequestTry e userInput userId o' s')) = calls s' @ invoked
                       \<and> length invoked \<le> 1" for o' s'
    using processRequestTry_calls[of e userInput userId o' s'] by auto
  have retry: "\<exists>invoked. calls (snd (processRequest e userInput userId o' s')) = calls s' @ invoked
                       \<and> length invoked \<le> 1" if "o_isFallback o'" for o' s'
  proof -
    obtain res s'' where t: "processRequestTry e userInput userId o' s' = (res, s'')"
      by (cases "processRequestTry e userInput userId o' s'") auto
    then have "snd (processRequest e userInput userId o' s') = s''"
      using that by (subst processRequest.simps) (auto split: sum.splits)
    then show ?thesis using one[of o' s'] t by simp
  qed
  obtain res s1 where t: "processRequestTry e userInput userId opts s = (res, s1)"
    by (cases "processRequestTry e userInput userId opts s") auto
  from one[of opts s] t obtain inv1 where i1: "calls s1 = calls s @ inv1" "length inv1 \<le> 1"
    by auto
  show ?thesis
  proof (cases "\<exists>err. res = Inl err \<and> o_enableFallback opts \<noteq> Some False \<and> \<not> o_isFallback opts")
    case True
    then obtain err where err: "res = Inl err" by blast
    let ?o' = "opts\<lparr>o_isFallback := True,
                     o_isFallbackSecondary := \<not> o_isFallbackSecondary opts,
                     o_overridePlatform :=
                       fallbackPlatform (routeRequest e (db s1) userInput userId opts) opts\<rparr>"
    have "processRequest e userInput userId opts s = processRequest e userInput userId ?o' s1"
      using True t err
      by (subst processRequest.simps) (simp add: handleFallback.simps Let_def)
    moreover from retry[of ?o' s1] obtain inv2 where
      "calls (snd (processRequest e userInput userId ?o' s1)) = calls s1 @ inv2" "length inv2 \<le> 1"
      by auto
    ultimately have "calls (snd (processRequest e userInput userId opts s)) = calls s @ (inv1 @ inv2)
                     \<and> length (inv1 @ inv2) \<le> 2"
      using i1 by simp
    then show ?thesis by blast
  next
    case False
    then have "snd (processRequest e userInput userId opts s) = s1"
      using t by (subst processRequest.simps) (auto split: sum.splits)
    then show ?thesis using i1 by (intro exI[of _ inv1]) simp
  qed
qed

text \<open>
  C1. The claim: within one request, fallback hops included, no platform is invoked
  twice. \<open>handleFallback\<close> passes the fallback platform on as \<open>options.overridePlatform\<close>,
  a key that \<open>getPlatformForTask\<close> never reads (it reads
  \<open>options.userPreferences.preferredPlatform\<close>): the retry is routed exactly as the first
  attempt was. With the ChatGPT module down, the request \<open>hello\<close> invokes \<open>chatgpt\<close> twice.
  The other half of the claim holds: a request makes at most two provider calls.
\<close>

theorem fallback_invokes_primary_twice:
  "routeRequest e d userInput userId
       (opts\<lparr>o_isFallback := True, o_isFallbackSecondary := b,
             o_overridePlatform := fallbackPlatform (routeRequest e d userInput userId opts) opts\<rparr>)
     = routeRequest e d userInput userId opts
   \<and> calls (snd (processRequest chatgptDownEnv ''hello'' ''u1'' defaultOptions initialState))
       = [''chatgpt'', ''chatgpt'']
   \<and> \<not> distinct (calls (snd (processRequest chatgptDownEnv ''hello'' ''u1'' defaultOptions
                                 initialState)))
   \<and> (\<exists>invoked. calls (snd (processRequest e userInput userId opts s)) = calls s @ invoked
                  \<and> length invoked \<le> 2)"
  using processRequest_at_most_two_calls[of e userInput userId opts s]
  by (simp add: routeRequest_ignores_fallback_options processRequest_chatgpt_down)

text \<open>
  C2. The claim: after a failed provider call \<open>processRequest\<close> retries on the task's
  \<open>secondary\<close> platform, then on its \<open>fallback\<close> platform, and only then returns an error
  response. For the request \<open>hello\<close> the secondary is \<open>deepseek\<close> and the fallback is
  \<open>local\<close>; with the ChatGPT module down and both of them answering, the code calls
  \<open>chatgpt\<close> a second time and returns the error response: neither \<open>deepseek\<close> nor \<open>local\<close>
  is invoked, and since the retry runs with \<open>isFallback\<close> set there is no third attempt.
\<close>

theorem fallback_never_reaches_secondary:
  "rd_secondary (routeRequest chatgptDownEnv [] ''hello'' ''u1'' defaultOptions) = Some ''deepseek''
   \<and> rd_fallback (routeRequest chatgptDownEnv [] ''hello'' ''u1'' defaultOptions) = Some ''local''
   \<and> generateResponse chatgptDownEnv ''deepseek'' n enhancedPrompt = Inr okResponse
   \<and> generateResponse chatgptDownEnv ''local'' n enhancedPrompt = Inr okResponse
   \<and> processRequest chatgptDownEnv ''hello'' ''u1'' defaultOptions initialState =
       (\<lparr>r_content = JStr ''I encountered an issue processing your request. Please try again.'',
         r_formattedResponse =
           JStr ''I encountered an issue processing your request. Please try again.'',
         r_error = Some ''ChatGPT API error: Request failed with status code 401'',
         r_originalError = None, r_platform = None, r_taskType = None,
         r_userId = Some ''u1'', r_routingInfo = None, r_sources = []\<rparr>,
        \<lparr>calls = [''chatgpt'', ''chatgpt''], db = [], initialized = True\<rparr>)"
proof -
  have "routeRequest chatgptDownEnv [] ''hello'' ''u1'' defaultOptions =
           \<lparr>rd_userId = ''u1'', rd_userInput = ''hello'', rd_taskType = ''general'',
            rd_platform = Some ''chatgpt'', rd_secondary = Some ''deepseek'',
            rd_fallback = Some ''local'', rd_isErrorFallback = False\<rparr>"
    by (rule routeRequest_hello) (simp_all add: chatgptDownEnv_facts defaultOptions_def)
  then show ?thesis
    by (simp add: chatgptDownEnv_facts processRequest_chatgpt_down errorResponse_def)
qed

text \<open>
  C4. The claim: each branch of \<open>processMultiPlatformRequest\<close> is dispatched to its named
  platform, failed branches are skipped, and a canned error response is returned when all
  branches fail. The platform is named through \<open>options.overridePlatform\<close>, which the
  router never reads: for the platforms \<open>gemini\<close> and \<open>perplexity\<close> both branches of the
  request \<open>hello\<close> call \<open>chatgpt\<close>. \<open>processRequest\<close> returns its error response instead of
  throwing, so with the ChatGPT module down both failed branches are collected and
  merged into a response without \<open>error\<close>.
\<close>

theorem multi_platform_ignores_named_platforms:
  "(calls (snd (processMultiPlatformRequest healthyEnv ''hello'' ''u1''
                 [''gemini'', ''perplexity''] defaultOptions initialState))
     = [''chatgpt'', ''chatgpt'']
   \<and> r_sources (fst (processMultiPlatformRequest healthyEnv ''hello'' ''u1''
                 [''gemini'', ''perplexity''] defaultOptions initialState))
     = [(Some ''chatgpt'', Some ''general''), (Some ''chatgpt'', Some ''general'')])
   \<and> (calls (snd (processMultiPlatformRequest chatgptDownEnv ''hello'' ''u1''
                 [''gemini'', ''perplexity''] defaultOptions initialState))
     = [''chatgpt'', ''chatgpt'']
   \<and> r_sources (fst (processMultiPlatformRequest chatgptDownEnv ''hello'' ''u1''
                 [''gemini'', ''perplexity''] defaultOptions initialState))
     = [(None, None), (None, None)]
   \<and> r_error (fst (processMultiPlatformRequest chatgptDownEnv ''hello'' ''u1''
                 [''gemini'', ''perplexity''] defaultOptions initialState)) = None
   \<and> r_platform (fst (processMultiPlatformRequest chatgptDownEnv ''hello'' ''u1''
                 [''gemini'', ''perplexity''] defaultOptions initialState)) = Some ''merged''
   \<and> r_content (fst (processMultiPlatformRequest chatgptDownEnv ''hello'' ''u1''
                 [''gemini'', ''perplexity''] defaultOptions initialState)) = JStr ''merged'')"
  by (rule conjI[OF multi_healthy multi_chatgpt_down])

section \<open>Membership of the routed platform in the provider set\<close>

lemma platformMapping_in_providerSet:
  assumes "map_of platformMapping taskType = Some (primary, second, fallb)"
  shows "primary \<in> set providerSet \<and> fallb \<in> set providerSet"
  using assms by (auto simp: platformMapping_def providerSet_def split: if_splits)

lemma getPlatformForTask_default_in_providerSet:
  assumes "o_preferredPlatform opts = None \<or> o_preferredPlatform opts = Some []"
    and "taskType \<notin> set objectPrototypeKeys"
  shows "pi_platform (getPlatformForTask taskType opts) \<in> Some ` set providerSet"
proof (cases "map_of platformMapping taskType")
  case None
  then have "lookupMember platformMapping taskType = Absent"
    using assms(2) by (simp add: lookupMember_def)
  then show ?thesis using assms(1)
    by (auto simp: getPlatformForTask_def Let_def providerSet_def)
next
  case (Some m)
  obtain primary second fallb where m: "m = (primary, second, fallb)" by (cases m) auto
  have "lookupMember platformMapping taskType = Own (primary, second, fallb)"
    using Some m by (simp add: lookupMember_def)
  with Some m platformMapping_in_providerSet[of taskType primary second fallb]
  show ?thesis using assms(1) by (auto simp: getPlatformForTask_def Let_def)
qed

lemma getPlatformForTask_inherited:
  assumes "o_preferredPlatform opts = None \<or> o_preferredPlatform opts = Some []"
    and "taskType \<in> set objectPrototypeKeys"
  shows "pi_platform (getPlatformForTask taskType opts) = None"
proof -
  have "lookupMember platformMapping taskType = Inherited"
    using assms(2) by (rule lookupMember_Inherited)
       (simp add: platformMapping_def objectPrototypeKeys_def)
  then show ?thesis using assms(1) by (auto simp: getPlatformForTask_def Let_def)
qed

lemma processRequest_unknown_platform:
  assumes "rd_platform (routeRequest e (db s) userInput userId opts) \<notin> Some ` set providerSet"
  shows "processRequest e userInput userId opts s =
           (errorResponse ''I encountered an issue processing your request. Please try again.''
              (if rd_taskType (routeRequest e (db s) userInput userId opts)
                    \<in> set objectPrototypeKeys
                  \<or> (platformModulesLoad e
                     \<and> keyOf (rd_platform (routeRequest e (db s) userInput userId opts))
                         \<in> set objectPrototypeKeys)
               then TypeError
               else Error (''Platform module not found for '' @
                      keyOf (rd_platform (routeRequest e (db s) userInput userId opts))))
              userId,
            if \<not> initialized s then initialize e s else s)"
proof -
  let ?ri = "routeRequest e (db s) userInput userId opts"
  let ?err = "if rd_taskType ?ri \<in> set objectPrototypeKeys
                  \<or> (platformModulesLoad e \<and> keyOf (rd_platform ?ri) \<in> set objectPrototypeKeys)
               then TypeError
               else Error (''Platform module not found for '' @ keyOf (rd_platform ?ri))"
  let ?s1 = "if \<not> initialized s then initialize e s else s"
  let ?opts' = "opts\<lparr>o_isFallback := True,
                     o_isFallbackSecondary := \<not> o_isFallbackSecondary opts,
                     o_overridePlatform :=
                       fallbackPlatform (routeRequest e (db ?s1) userInput userId opts) opts\<rparr>"
  let ?s2 = "if \<not> initialized ?s1 then initialize e ?s1 else ?s1"
  have d1: "db ?s1 = db s" by (simp add: db_initialize)
  have s2: "?s2 = ?s1" by (simp add: initialize_def split: option.splits)
  have first: "processRequestTry e userInput userId opts s = (Inl ?err, ?s1)"
    by (rule processRequestTry_unknown_platform[OF assms])
  have r: "routeRequest e (db ?s1) userInput userId ?opts' = ?ri"
    unfolding d1 by (rule routeRequest_ignores_fallback_options)
  have "rd_platform (routeRequest e (db ?s1) userInput userId ?opts') \<notin> Some ` set providerSet"
    using assms r by simp
  from processRequestTry_unknown_platform[OF this]
  have second: "processRequestTry e userInput userId ?opts' ?s1 = (Inl ?err, ?s1)"
    unfolding r s2 .
  have retry: "processRequest e userInput userId ?opts' ?s1 =
                 (errorResponse
                    ''I encountered an issue processing your request. Please try again.''
                    ?err userId, ?s1)"
    by (subst processRequest.simps) (simp only: second prod.case sum.case, simp)
  show ?thesis
  proof (cases "o_enableFallback opts \<noteq> Some False \<and> \<not> o_isFallback opts")
    case True
    then have "processRequest e userInput userId opts s =
                 handleFallback e userInput userId ?err opts ?s1"
      by (subst processRequest.simps) (simp only: first prod.case sum.case, simp)
    also have "\<dots> = processRequest e userInput userId ?opts' ?s1"
      by (simp only: handleFallback.simps Let_def)
    finally show ?thesis using retry by simp
  next
    case False
    then show ?thesis
      by (subst processRequest.simps) (simp only: first prod.case sum.case, auto)
  qed
qed

lemma rd_taskType_routeRequest:
  "rd_taskType (routeRequest e d userInput userId opts) = classifyTask e d userInput userId"
  by (simp add: routeRequest_def Let_def)

lemma classifyTask_hello:
  "\<not> classifierInitialized e \<Longrightarrow> classifyTask e d ''hello'' userId = ''general''"
  by (simp add: classifyTask_uninitialized ruleBasedClassification_hello)

lemma classifyTask_constructor:
  "classifyTask constructorClassifierEnv d userInput userId = ''constructor''"
  by (simp add: classifyTask_def classifyTaskTry_def Let_def bindE_def exceedsThreshold_def
        constructorClassifierEnv_def healthyEnv_def)

text \<open>
  C9. The claim: the platform of every routing decision, also under a user-preferred
  override, is one of the eight configured providers. \<open>getPlatformForTask\<close> returns
  \<open>options.userPreferences.preferredPlatform\<close> as it is: the preference \<open>bard\<close> yields a
  routing decision for \<open>bard\<close>.
\<close>

theorem routeRequest_preferred_platform_counterexample:
  "rd_platform (routeRequest healthyEnv [] ''hello'' ''u1'' bardOptions) = Some ''bard''
   \<and> ''bard'' \<notin> set providerSet"
  by (simp add: routeRequest_def getPlatformForTask_override bardOptions_def defaultOptions_def
        providerSet_def Let_def)

text \<open>
  C9, amended. Without a user-preferred platform, the routing decision's platform is one
  of the eight configured providers if the classified task type is not a name that
  object literals inherit from \<open>Object.prototype\<close> (\<open>constructor\<close>, \<open>toString\<close>, ...), and
  is \<open>undefined\<close> if it is one. With a user-preferred platform, it is the preferred
  platform as given, configured or not. \<open>processRequest\<close> rejects a platform outside the
  provider set before dispatch: no platform module is invoked, also not on the fallback
  attempt, and the error response is returned. Its \<open>error\<close> is
  \<open>Platform module not found for ...\<close> if neither the task type nor (with the modules
  loaded) the platform is an inherited name, and the message of a TypeError otherwise
  (\<open>reasoningStepKeys.map\<close> or \<open>platformModule.generateResponse\<close> is not a function).
\<close>

theorem routed_platform_checked_at_dispatch:
  "(o_preferredPlatform opts = None \<or> o_preferredPlatform opts = Some [] \<longrightarrow>
      (classifyTask e d userInput userId \<notin> set objectPrototypeKeys
         \<longrightarrow> rd_platform (routeRequest e d userInput userId opts) \<in> Some ` set providerSet)
    \<and> (classifyTask e d userInput userId \<in> set objectPrototypeKeys
         \<longrightarrow> rd_platform (routeRequest e d userInput userId opts) = None))
   \<and> (o_preferredPlatform opts = Some p \<and> p \<noteq> []
      \<longrightarrow> rd_platform (routeRequest e d userInput userId opts) = Some p)
   \<and> (rd_platform (routeRequest e (db s) userInput userId opts) \<notin> Some ` set providerSet \<longrightarrow>
        calls (snd (processRequest e userInput userId opts s)) = calls s
      \<and> r_content (fst (processRequest e userInput userId opts s)) =
          JStr ''I encountered an issue processing your request. Please try again.''
      \<and> r_error (fst (processRequest e userInput userId opts s)) =
          Some (errorMessage
            (if classifyTask e (db s) userInput userId \<in> set objectPrototypeKeys
                \<or> (platformModulesLoad e
                   \<and> keyOf (rd_platform (routeRequest e (db s) userInput userId opts))
                       \<in> set objectPrototypeKeys)
             then TypeError
             else Error (''Platform module not found for '' @
                    keyOf (rd_platform (routeRequest e (db s) userInput userId opts))))))"
proof (intro conjI impI)
  assume "o_preferredPlatform opts = None \<or> o_preferredPlatform opts = Some []"
    and "classifyTask e d userInput userId \<notin> set objectPrototypeKeys"
  then show "rd_platform (routeRequest e d userInput userId opts) \<in> Some ` set providerSet"
    using getPlatformForTask_default_in_providerSet by (simp add: routeRequest_def Let_def)
next
  assume "o_preferredPlatform opts = None \<or> o_preferredPlatform opts = Some []"
    and "classifyTask e d userInput userId \<in> set objectPrototypeKeys"
  then show "rd_platform (routeRequest e d userInput userId opts) = None"
    using getPlatformForTask_inherited by (simp add: routeRequest_def Let_def)
next
  assume "o_preferredPlatform opts = Some p \<and> p \<noteq> []"
  then show "rd_platform (routeRequest e d userInput userId opts) = Some p"
    by (simp add: routeRequest_def Let_def getPlatformForTask_override)
next
  assume a: "rd_platform (routeRequest e (db s) userInput userId opts) \<notin> Some ` set providerSet"
  note r = processRequest_unknown_platform[OF a]
  show "calls (snd (processRequest e userInput userId opts s)) = calls s"
    unfolding r by (simp add: calls_initialize)
  show "r_content (fst (processRequest e userInput userId opts s)) =
          JStr ''I encountered an issue processing your request. Please try again.''"
    unfolding r by (simp add: errorResponse_def)
  show "r_error (fst (processRequest e userInput userId opts s)) =
          Some (errorMessage
            (if classifyTask e (db s) userInput userId \<in> set objectPrototypeKeys
                \<or> (platformModulesLoad e
                   \<and> keyOf (rd_platform (routeRequest e (db s) userInput userId opts))
                       \<in> set objectPrototypeKeys)
             then TypeError
             else Error (''Platform module not found for '' @
                    keyOf (rd_platform (routeRequest e (db s) userInput userId opts)))))"
    unfolding r rd_taskType_routeRequest by (simp add: errorResponse_def)
qed

theorem routed_platform_checked_at_dispatch_witness:
  "rd_platform (routeRequest healthyEnv [] ''hello'' ''u1'' defaultOptions)
     \<in> Some ` set providerSet
   \<and> rd_platform (routeRequest healthyEnv [] ''hello'' ''u1'' bardOptions) = Some ''bard''
   \<and> calls (snd (processRequest healthyEnv ''hello'' ''u1'' bardOptions initialState)) = []
   \<and> r_error (fst (processRequest healthyEnv ''hello'' ''u1'' bardOptions initialState)) =
       Some ''Platform module not found for bard''
   \<and> rd_platform (routeRequest healthyEnv [] ''hello'' ''u1'' constructorOptions)
       = Some ''constructor''
   \<and> calls (snd (processRequest healthyEnv ''hello'' ''u1'' constructorOptions initialState)) = []
   \<and> r_error (fst (processRequest healthyEnv ''hello'' ''u1'' constructorOptions initialState)) =
       Some (errorMessage TypeError)
   \<and> rd_platform (routeRequest constructorClassifierEnv [] ''hello'' ''u1'' defaultOptions) = None
   \<and> calls (snd (processRequest constructorClassifierEnv ''hello'' ''u1'' defaultOptions
                    initialState)) = []
   \<and> r_error (fst (processRequest constructorClassifierEnv ''hello'' ''u1'' defaultOptions
                      initialState)) = Some (errorMessage TypeError)"
proof -
  have d0: "db initialState = []" and c0: "calls initialState = []"
    by (simp_all add: initialState_def)
  have h1: "o_preferredPlatform defaultOptions = None \<or> o_preferredPlatform defaultOptions = Some []"
    by (simp add: defaultOptions_def)
  have h2: "o_preferredPlatform bardOptions = Some ''bard'' \<and> ''bard'' \<noteq> []"
    by (simp add: bardOptions_def)
  have h3: "o_preferredPlatform constructorOptions = Some ''constructor'' \<and> ''constructor'' \<noteq> []"
    by (simp add: constructorOptions_def)
  have g: "classifyTask healthyEnv [] ''hello'' ''u1'' \<notin> set objectPrototypeKeys"
    by (simp add: classifyTask_hello healthyEnv_facts objectPrototypeKeys_def)
  have k: "classifyTask constructorClassifierEnv [] ''hello'' ''u1'' \<in> set objectPrototypeKeys"
    by (simp add: classifyTask_constructor objectPrototypeKeys_def)
  have l: "platformModulesLoad healthyEnv" by (rule healthyEnv_facts)
  note t1 = routed_platform_checked_at_dispatch
              [of defaultOptions healthyEnv "[]" "''hello''" "''u1''" "''bard''" initialState]
  note t2 = routed_platform_checked_at_dispatch
              [of bardOptions healthyEnv "[]" "''hello''" "''u1''" "''bard''" initialState]
  note t3 = routed_platform_checked_at_dispatch
              [of constructorOptions healthyEnv "[]" "''hello''" "''u1''" "''constructor''"
                  initialState]
  note t4 = routed_platform_checked_at_dispatch
              [of defaultOptions constructorClassifierEnv "[]" "''hello''" "''u1''" "''bard''"
                  initialState]
  have a: "rd_platform (routeRequest healthyEnv [] ''hello'' ''u1'' defaultOptions)
             \<in> Some ` set providerSet"
    using t1 h1 g by blast
  have b: "rd_platform (routeRequest healthyEnv [] ''hello'' ''u1'' bardOptions) = Some ''bard''"
    using t2 h2 by blast
  have c: "rd_platform (routeRequest healthyEnv [] ''hello'' ''u1'' constructorOptions)
             = Some ''constructor''"
    using t3 h3 by blast
  have n: "rd_platform (routeRequest constructorClassifierEnv [] ''hello'' ''u1'' defaultOptions)
             = None"
    using t4 h1 k by blast
  have b': "rd_platform (routeRequest healthyEnv (db initialState) ''hello'' ''u1'' bardOptions)
              \<notin> Some ` set providerSet"
    unfolding d0 b by (simp add: providerSet_def)
  have c': "rd_platform (routeRequest healthyEnv (db initialState) ''hello'' ''u1''
               constructorOptions) \<notin> Some ` set providerSet"
    unfolding d0 c by (simp add: providerSet_def)
  have n': "rd_platform (routeRequest constructorClassifierEnv (db initialState) ''hello'' ''u1''
               defaultOptions) \<notin> Some ` set providerSet"
    unfolding d0 n by simp
  have rb: "calls (snd (processRequest healthyEnv ''hello'' ''u1'' bardOptions initialState)) = []
     \<and> r_error (fst (processRequest healthyEnv ''hello'' ''u1'' bardOptions initialState)) =
         Some ''Platform module not found for bard''"
    using t2 b' g b by (simp add: d0 c0 keyOf_def objectPrototypeKeys_def)
  have rc: "calls (snd (processRequest healthyEnv ''hello'' ''u1'' constructorOptions
                          initialState)) = []
     \<and> r_error (fst (processRequest healthyEnv ''hello'' ''u1'' constructorOptions
                        initialState)) = Some (errorMessage TypeError)"
    using t3 c' c l by (simp only: d0 c0 keyOf_def objectPrototypeKeys_def) simp
  have rn: "calls (snd (processRequest constructorClassifierEnv ''hello'' ''u1'' defaultOptions
                          initialState)) = []
     \<and> r_error (fst (processRequest constructorClassifierEnv ''hello'' ''u1'' defaultOptions
                        initialState)) = Some (errorMessage TypeError)"
    using t4 n' k by (simp only: d0 c0) simp
  show ?thesis
    using a b c n rb rc rn by blast
qed

section \<open>Enhancing a prompt twice\<close>



























end
